theory Spec2Isabelle
  imports Main "HOL-Library.Word"
begin

unbundle bit_operations_syntax

section \<open>smash: a shallow embedding of the job-control core\<close>

text \<open>
  The theory follows the C sources \<^verbatim>\<open>jobs.c\<close>, \<^verbatim>\<open>parse.c\<close>, \<^verbatim>\<open>builtin.c\<close> and
  \<^verbatim>\<open>smash.c\<close> in the build without \<^verbatim>\<open>EXTRA_CREDIT\<close>.

  Conventions of the embedding:
  \<^item> a C string is a \<^typ>\<open>string\<close> (its characters up to the terminating NUL); a
    \<^verbatim>\<open>char *\<close> that may be \<^verbatim>\<open>NULL\<close> is a \<^typ>\<open>string option\<close>;
  \<^item> a \<^verbatim>\<open>job_t *\<close> argument is passed as a \<^verbatim>\<open>job_t option\<close> (\<open>None\<close> is \<^verbatim>\<open>NULL\<close>) and
    the function returns the pointee as it leaves it; the singly linked job list is a
    HOL list in link order, and a pointer to one of its nodes is the node's position;
  \<^item> the \<^verbatim>\<open>int\<close> fields \<^verbatim>\<open>status\<close>, \<^verbatim>\<open>exitcode\<close>, \<^verbatim>\<open>pgid\<close> and \<^verbatim>\<open>jobid\<close> are
    \<^typ>\<open>int\<close>; the code only stores values into them, except for the increment of
    \<^verbatim>\<open>jobid\<close> in \<^verbatim>\<open>jobs_insert\<close>, which is written with its wrap-around at 32 bits; a
    wait status, whose bits the \<^verbatim>\<open>W*\<close> macros inspect, is a \<^typ>\<open>32 word\<close>; flags
    that only ever hold 0 or 1 are \<^typ>\<open>bool\<close>;
  \<^item> \<^verbatim>\<open>exit()\<close> is the outcome \<open>Exits\<close>, a function that returns is \<open>Returns\<close>;
  \<^item> the answers of the operating system (whether a system call fails, what
    \<^verbatim>\<open>waitpid\<close> reports) are inputs of the model, and every system call made is
    appended to a trace;
  \<^item> memory allocation is taken to succeed; the diagnostics that the \<^verbatim>\<open>DEBUG\<close> and
    \<^verbatim>\<open>ERROR\<close> macros and the \<^verbatim>\<open>-d\<close> switch write to standard error are not part of
    the state.
\<close>

subsection \<open>Constants of \<^verbatim>\<open>jobs.h\<close> and of the C library\<close>

definition NEW :: int where "NEW = 0"
definition RUNNING :: int where "RUNNING = 1"
definition SUSPENDED :: int where "SUSPENDED = 2"
definition EXITED :: int where "EXITED = 3"
definition ABORTED :: int where "ABORTED = 4"
definition CANCELED :: int where "CANCELED = 5"

definition EINVAL :: int where "EINVAL = 22"
definition EXIT_FAILURE :: int where "EXIT_FAILURE = 1"
definition SIGCONT :: int where "SIGCONT = 18"
definition SIGTERM :: int where "SIGTERM = 15"


definition int_wrap :: "int \<Rightarrow> int" where
  "int_wrap x = (x + 2147483648) mod 4294967296 - 2147483648"

subsection \<open>Wait statuses\<close>

text \<open>
  The macros of \<^verbatim>\<open><sys/wait.h>\<close> as the GNU C library on Linux defines them
  (\<^verbatim>\<open>bits/waitstatus.h\<close>):
  \<^verbatim>\<open>
  #define __WEXITSTATUS(status) (((status) & 0xff00) >> 8)
  #define __WTERMSIG(status)    ((status) & 0x7f)
  #define __WIFEXITED(status)   (__WTERMSIG(status) == 0)
  #define __WIFSIGNALED(status) (((signed char) (((status) & 0x7f) + 1) >> 1) > 0)
  #define __WIFSTOPPED(status)  (((status) & 0xff) == 0x7f)
  #define __WIFCONTINUED(status) ((status) == 0xffff)
  \<close>
\<close>

definition WEXITSTATUS :: "32 word \<Rightarrow> int" where
  "WEXITSTATUS st = uint (drop_bit 8 (st AND 0xff00))"

definition WTERMSIG :: "32 word \<Rightarrow> int" where
  "WTERMSIG st = uint (st AND 0x7f)"

definition WIFEXITED :: "32 word \<Rightarrow> bool" where
  "WIFEXITED st = (st AND 0x7f = 0)"

definition WIFSIGNALED :: "32 word \<Rightarrow> bool" where
  "WIFSIGNALED st = (0 < sint (signed_drop_bit 1 (ucast ((st AND 0x7f) + 1) :: 8 word)))"

definition WIFSTOPPED :: "32 word \<Rightarrow> bool" where
  "WIFSTOPPED st = (st AND 0xff = 0x7f)"

definition WIFCONTINUED :: "32 word \<Rightarrow> bool" where
  "WIFCONTINUED st = (st = 0xffff)"

subsection \<open>The data of \<^verbatim>\<open>parse.h\<close> and \<^verbatim>\<open>jobs.h\<close>\<close>

text \<open>
  \<^verbatim>\<open>parse.h\<close> is not among the sources; the fields of \<^verbatim>\<open>command_t\<close> and
  \<^verbatim>\<open>user_input_t\<close> are those that \<^verbatim>\<open>parse.c\<close> and \<^verbatim>\<open>jobs.c\<close> read and write. The
  list of \<^verbatim>\<open>component_t\<close> nodes of a command is its list of strings, and the
  \<^verbatim>\<open>next\<close> links are the order of the lists.
\<close>

record command_t =
  command :: string
  components :: "string list"
  redirect_stdout :: "string option"
  redirect_stderr :: "string option"
  redirect_stdin :: "string option"
  append_stdout :: bool

record user_input_t =
  input :: string
  commands :: "command_t list"
  is_background_command :: bool

type_synonym termios = nat

record job_t =
  ui :: user_input_t
  status :: int
  exitcode :: int
  pgid :: int
  jobid :: int
  termattr :: termios
  is_background_job :: bool
  is_in_bg :: bool

subsection \<open>\<^verbatim>\<open>job_update_status\<close>\<close>

definition job_update_status :: "job_t option \<Rightarrow> 32 word \<Rightarrow> int \<times> job_t option" where
  "job_update_status jp st =
     (case jp of
        None \<Rightarrow> (- EINVAL, None)
      | Some j \<Rightarrow>
          (0, Some (if WIFSTOPPED st then j\<lparr>status := SUSPENDED\<rparr>
                    else if WIFCONTINUED st then j\<lparr>status := RUNNING\<rparr>
                    else if WIFSIGNALED st then j\<lparr>status := ABORTED, exitcode := WTERMSIG st\<rparr>
                    else if WIFEXITED st then j\<lparr>status := EXITED, exitcode := WEXITSTATUS st\<rparr>
                    else j)))"

definition example_ui :: user_input_t where
  "example_ui = \<lparr>input = ''sleep 60'',
     commands = [\<lparr>command = ''sleep 60'', components = [''sleep'', ''60''],
        redirect_stdout = None, redirect_stderr = None, redirect_stdin = None,
        append_stdout = False\<rparr>],
     is_background_command = False\<rparr>"

definition example_job :: job_t where
  "example_job = \<lparr>ui = example_ui, status = RUNNING, exitcode = 0, pgid = 4242, jobid = 1,
     termattr = 0, is_background_job = False, is_in_bg = False\<rparr>"

subsection \<open>Standard output\<close>

text \<open>
  A file descriptor the shell writes to: the text written so far, and the answers of
  the system to the coming \<^verbatim>\<open>dprintf\<close> calls (\<open>True\<close>: the call fails and returns a
  negative value; once the answers are used up a call succeeds).
\<close>

record fd =
  written :: string
  tape :: "bool list"

definition dprintf :: "fd \<Rightarrow> string \<Rightarrow> int \<times> fd" where
  "dprintf f s =
     (case tape f of
        [] \<Rightarrow> (int (length s), f\<lparr>written := written f @ s\<rparr>)
      | fails # t \<Rightarrow>
          if fails then (- 1, f\<lparr>tape := t\<rparr>)
          else (int (length s), f\<lparr>written := written f @ s, tape := t\<rparr>))"

text \<open>The conversions \<^verbatim>\<open>%d\<close> and \<^verbatim>\<open>%s\<close> (glibc prints \<^verbatim>\<open>(null)\<close> for a null string).\<close>

definition digit_char :: "nat \<Rightarrow> char" where
  "digit_char d = ''0123456789'' ! d"

function dec_nat :: "nat \<Rightarrow> string" where
  "dec_nat n = (if n < 10 then [digit_char n] else dec_nat (n div 10) @ [digit_char (n mod 10)])"
  by pat_completeness auto
termination
  by (relation "measure id") auto

declare dec_nat.simps [simp del]

definition fmt_d :: "int \<Rightarrow> string" where
  "fmt_d i = (if i < 0 then CHR ''-'' # dec_nat (nat (- i)) else dec_nat (nat i))"

definition fmt_s :: "string option \<Rightarrow> string" where
  "fmt_s p = (case p of None \<Rightarrow> ''(null)'' | Some s \<Rightarrow> s)"

subsection \<open>The job table of \<^verbatim>\<open>jobs.c\<close>\<close>

definition jobs_status_as_char :: "int \<Rightarrow> string option" where
  "jobs_status_as_char st =
     (if st = NEW then Some ''new''
      else if st = RUNNING then Some ''running''
      else if st = SUSPENDED then Some ''suspended''
      else if st = EXITED then Some ''exited''
      else if st = ABORTED then Some ''aborted''
      else if st = CANCELED then Some ''canceled''
      else None)"

definition print_job :: "job_t option \<Rightarrow> fd \<Rightarrow> int \<times> fd" where
  "print_job jp out =
     (case jp of
        None \<Rightarrow> (- EINVAL, out)
      | Some j \<Rightarrow>
          if status j \<noteq> EXITED \<and> status j \<noteq> ABORTED then
            (case dprintf out (''['' @ fmt_d (jobid j) @ ''] ('' @
                     fmt_s (jobs_status_as_char (status j)) @ '') '' @ input (ui j) @ [CHR 0x0A]) of
               (n, out') \<Rightarrow> if n < 0 then (- 1, out') else (0, out'))
          else
            (case dprintf out (''['' @ fmt_d (jobid j) @ ''] ('' @
                     fmt_s (jobs_status_as_char (status j)) @ '' <'' @ fmt_d (exitcode j) @
                     ''>) '' @ input (ui j) @ [CHR 0x0A]) of
               (n, out') \<Rightarrow> if n < 0 then (- 1, out') else (0, out')))"

text \<open>
  \<^verbatim>\<open>jobs_insert\<close>: an empty list gets the job with id 1; otherwise the loop walks to the
  last node and links the job behind it with that node's id plus one, an addition
  of \<^verbatim>\<open>int\<close>s.
\<close>

fun jobs_insert_nodes :: "job_t \<Rightarrow> job_t list \<Rightarrow> job_t list" where
  "jobs_insert_nodes job [] = [job\<lparr>jobid := 1\<rparr>]"
| "jobs_insert_nodes job [j] = [j, job\<lparr>jobid := int_wrap (jobid j + 1)\<rparr>]"
| "jobs_insert_nodes job (j # js) = j # jobs_insert_nodes job js"

definition jobs_insert :: "job_t option \<Rightarrow> job_t list \<Rightarrow> int \<times> job_t list" where
  "jobs_insert jp js =
     (case jp of None \<Rightarrow> (- EINVAL, js) | Some job \<Rightarrow> (0, jobs_insert_nodes job js))"

text \<open>
  \<^verbatim>\<open>jobs_remove\<close>: the node that the pointer names is unlinked; a pointer to no node
  of the list leaves the list as it is and gives \<^verbatim>\<open>-EINVAL\<close>.
\<close>

fun unlink :: "nat \<Rightarrow> job_t list \<Rightarrow> job_t list option" where
  "unlink p [] = None"
| "unlink 0 (j # js) = Some js"
| "unlink (Suc p) (j # js) = map_option ((#) j) (unlink p js)"

definition jobs_remove :: "nat option \<Rightarrow> job_t list \<Rightarrow> int \<times> job_t list" where
  "jobs_remove jp js =
     (case jp of
        None \<Rightarrow> (- EINVAL, js)
      | Some p \<Rightarrow> (case unlink p js of None \<Rightarrow> (- EINVAL, js) | Some js' \<Rightarrow> (0, js')))"

lemma unlink_eq:
  "unlink p js = (if p < length js then Some (take p js @ drop (Suc p) js) else None)"
  by (induction p js rule: unlink.induct) auto

lemma jobs_remove_length:
  "p < length js \<Longrightarrow> length (snd (jobs_remove (Some p) js)) = length js - 1"
  by (simp add: jobs_remove_def unlink_eq)

text \<open>
  \<^verbatim>\<open>jobs_list\<close>: the pointer \<open>p\<close> walks the list; every job is printed; an \<open>EXITED\<close> or
  \<open>ABORTED\<close> job is removed and the walk goes on at its successor, which then stands
  at the same position.
\<close>

function jobs_list_loop :: "nat \<Rightarrow> job_t list \<Rightarrow> fd \<Rightarrow> int \<times> job_t list \<times> fd" where
  "jobs_list_loop p js out =
     (if p < length js then
        (case print_job (Some (js ! p)) out of
           (r, out') \<Rightarrow>
             if r \<noteq> 0 then (- 1, js, out')
             else if status (js ! p) = EXITED \<or> status (js ! p) = ABORTED
               then jobs_list_loop p (snd (jobs_remove (Some p) js)) out'
               else jobs_list_loop (Suc p) js out')
      else (0, js, out))"
  by pat_completeness auto
termination
  by (relation "measure (\<lambda>(p, js, out). length js - p)") (auto simp: jobs_remove_length)

declare jobs_list_loop.simps [simp del]

definition jobs_list :: "job_t list \<Rightarrow> fd \<Rightarrow> int \<times> job_t list \<times> fd" where
  "jobs_list js out = jobs_list_loop 0 js out"

subsection \<open>Notions used to state the properties of the job table\<close>

text \<open>The text that \<^verbatim>\<open>print_job\<close> sends for a job.\<close>

definition job_line :: "job_t \<Rightarrow> string" where
  "job_line j = written (snd (print_job (Some j) \<lparr>written = [], tape = []\<rparr>))"




text \<open>
  The listing line in the words of the specification:
  \<^verbatim>\<open>[<id>] (<status>) <raw>\<close> for non-terminal states and
  \<^verbatim>\<open>[<id>] (<status> <exit_code>) <raw>\<close> for \<open>Exited\<close> and \<open>Aborted\<close>.
\<close>

definition spec_job_line :: "job_t \<Rightarrow> string" where
  "spec_job_line j =
     (if status j = EXITED \<or> status j = ABORTED
      then ''['' @ fmt_d (jobid j) @ ''] ('' @ fmt_s (jobs_status_as_char (status j)) @ '' '' @
           fmt_d (exitcode j) @ '') '' @ input (ui j) @ ''\<newline>''
      else ''['' @ fmt_d (jobid j) @ ''] ('' @ fmt_s (jobs_status_as_char (status j)) @
           '') '' @ input (ui j) @ ''\<newline>'')"

text \<open>The number that a string of decimal digits denotes.\<close>

definition digits_value :: "string \<Rightarrow> nat" where
  "digits_value s = foldl (\<lambda>a c. 10 * a + (of_char c - 48)) 0 s"

subsection \<open>The state of the shell and the outcome of a call\<close>

text \<open>
  The system calls of the job controller, as they are recorded in the trace.
\<close>

datatype syscall =
    Fork
  | Setpgid int int
  | Tcsetpgrp int
  | Tcsetattr termios
  | Tcgetattr
  | Killpg int int
  | Waitpid int

text \<open>
  The globals of the shell (\<^verbatim>\<open>jobs\<close>, \<^verbatim>\<open>last_exit_code\<close>, \<^verbatim>\<open>interactive\<close>,
  \<^verbatim>\<open>shell_pgid\<close>, \<^verbatim>\<open>shell_termattr\<close>) and the part of its surroundings that it
  reads and writes: standard output, the environment behind \<^verbatim>\<open>getenv\<close>, the
  foreground process group and the attributes of the terminal, and the trace of the
  system calls made.
\<close>

record shell =
  jobs :: "job_t list"
  last_exit_code :: int
  interactive :: bool
  shell_pgid :: int
  shell_termattr :: termios
  stdout :: fd
  environ :: "string \<Rightarrow> string option"
  tty_pgrp :: int
  tty_attr :: termios
  trace :: "syscall list"

text \<open>
  What a call comes to. \<open>Returns\<close>: it returns. \<open>Exits code\<close>: the process ends with
  \<^verbatim>\<open>exit(code)\<close>, which runs the handler \<^verbatim>\<open>smash_atexit\<close> that \<^verbatim>\<open>smash_setup\<close>
  registers with \<^verbatim>\<open>atexit\<close> before \<^verbatim>\<open>smash_main\<close> starts. \<open>Child cmd pgid fg\<close>: the
  process is the child that \<^verbatim>\<open>fork\<close> made and it calls
  \<^verbatim>\<open>launch_child(cmd, pgid, fg)\<close>, which never returns. \<open>Crashes\<close>: a null pointer is
  dereferenced.
\<close>

datatype 'a outcome = Returns 'a | Exits int | Child command_t int bool | Crashes

subsection \<open>Strings and tokens\<close>

text \<open>
  \<^verbatim>\<open>isspace\<close> in the C locale; \<^verbatim>\<open>strncmp(a, b, n) == 0\<close>; and \<^verbatim>\<open>strtok_r\<close>, where the
  first argument of the model is the text at which the scan starts (the string of
  the first call, the save pointer of the later ones) and the result is the token and
  the new save pointer, or \<open>None\<close> for \<^verbatim>\<open>NULL\<close>.
\<close>

definition isspace :: "char \<Rightarrow> bool" where
  "isspace c = (c \<in> {CHR '' '', CHR 0x09, CHR 0x0A, CHR 0x0B, CHR 0x0C, CHR 0x0D})"

definition strncmp0 :: "string \<Rightarrow> string \<Rightarrow> nat \<Rightarrow> bool" where
  "strncmp0 a b n = (take n a = take n b)"

definition strtok_r :: "string \<Rightarrow> string \<Rightarrow> (string \<times> string) option" where
  "strtok_r s delim =
     (let s1 = dropWhile (\<lambda>c. c \<in> set delim) s in
      if s1 = [] then None
      else Some (takeWhile (\<lambda>c. c \<notin> set delim) s1,
                 drop 1 (dropWhile (\<lambda>c. c \<notin> set delim) s1)))"

lemma strtok_r_shorter: "strtok_r s delim = Some (tok, save) \<Longrightarrow> length save < length s"
proof -
  assume a: "strtok_r s delim = Some (tok, save)"
  let ?s1 = "dropWhile (\<lambda>c. c \<in> set delim) s"
  from a have ne: "?s1 \<noteq> []" and sv: "save = drop 1 (dropWhile (\<lambda>c. c \<notin> set delim) ?s1)"
    by (auto simp: strtok_r_def Let_def split: if_splits)
  from ne have "\<not> (hd ?s1 \<in> set delim)"
    by (rule hd_dropWhile)
  with ne have "dropWhile (\<lambda>c. c \<notin> set delim) ?s1 = dropWhile (\<lambda>c. c \<notin> set delim) (tl ?s1)"
    by (cases ?s1) auto
  moreover have "length (dropWhile (\<lambda>c. c \<notin> set delim) (tl ?s1)) \<le> length (tl ?s1)"
    by (rule length_dropWhile_le)
  ultimately have "length (dropWhile (\<lambda>c. c \<notin> set delim) ?s1) \<le> length (tl ?s1)"
    by (simp only:)
  with ne have "length (dropWhile (\<lambda>c. c \<notin> set delim) ?s1) < length ?s1"
    by (cases ?s1) auto
  moreover have "length ?s1 \<le> length s"
    by (rule length_dropWhile_le)
  ultimately show ?thesis
    using sv by simp
qed

text \<open>The tokens that successive calls of \<^verbatim>\<open>strtok_r\<close> return.\<close>

function tokens :: "string \<Rightarrow> string \<Rightarrow> string list" where
  "tokens s delim =
     (case strtok_r s delim of None \<Rightarrow> [] | Some (tok, save) \<Rightarrow> tok # tokens save delim)"
  by pat_completeness auto
termination
  by (relation "measure (\<lambda>(s, delim). length s)") (auto simp: strtok_r_shorter)

declare tokens.simps [simp del]

subsection \<open>The builtins of \<^verbatim>\<open>builtin.c\<close>\<close>

definition NUM_BUILTINS :: nat where "NUM_BUILTINS = 8"

definition BUILTIN_DELIMS :: string where
  "BUILTIN_DELIMS = [CHR 0x09, CHR 0x0D, CHR 0x0A, CHR '' '']"

definition builtins :: "string list" where
  "builtins = [''exit'', ''cd'', ''pwd'', ''echo'', ''jobs'', ''fg'', ''bg'', ''kill'', ''#'']"

text \<open>
  \<^verbatim>\<open>is_builtin\<close>: the index of the first of the \<^verbatim>\<open>NUM_BUILTINS\<close> entries of the table
  whose name is the first token of the line, or -1.
\<close>

definition is_builtin :: "string option \<Rightarrow> int" where
  "is_builtin cmdp =
     (case cmdp of
        None \<Rightarrow> - 1
      | Some cmd \<Rightarrow>
          (case strtok_r cmd BUILTIN_DELIMS of
             None \<Rightarrow> - 1
           | Some (tok, save) \<Rightarrow>
               (case filter (\<lambda>i. strncmp0 tok (builtins ! i) (length tok) \<and>
                                   length tok = length (builtins ! i)) [0 ..< NUM_BUILTINS] of
                  [] \<Rightarrow> - 1
                | i # rest \<Rightarrow> int i)))"

definition builtin_exit :: "string option \<Rightarrow> shell \<Rightarrow> (int \<times> shell) outcome" where
  "builtin_exit cmdp s =
     (case cmdp of
        None \<Rightarrow> Returns (- EINVAL, s)
      | Some cmd \<Rightarrow>
          if length cmd = 4 \<and> strncmp0 cmd ''exit'' 4 then Exits 0
          else Returns (- EINVAL, s))"

text \<open>
  \<^verbatim>\<open>builtin_echo\<close>: the pointer skips the command word up to the first white space;
  then every token is written, expanded when it starts with \<^verbatim>\<open>$\<close>, and followed by
  a space; a newline ends the output. The results of the \<^verbatim>\<open>dprintf\<close> calls are not
  looked at.
\<close>

function echo_loop :: "string \<Rightarrow> shell \<Rightarrow> shell" where
  "echo_loop c s =
     (case strtok_r c BUILTIN_DELIMS of
        None \<Rightarrow> s
      | Some (tok, save) \<Rightarrow>
          (let o1 =
             (if hd tok = CHR ''$'' then
                (if tl tok = ''?'' then snd (dprintf (stdout s) (fmt_d (last_exit_code s)))
                 else snd (dprintf (stdout s)
                        (case environ s (tl tok) of None \<Rightarrow> [] | Some var \<Rightarrow> var)))
              else snd (dprintf (stdout s) tok))
           in echo_loop save (s\<lparr>stdout := snd (dprintf o1 '' '')\<rparr>)))"
  by pat_completeness auto
termination
  by (relation "measure (\<lambda>(c, s). length c)") (auto simp: strtok_r_shorter)

declare echo_loop.simps [simp del]

definition builtin_echo :: "string option \<Rightarrow> shell \<Rightarrow> int \<times> shell" where
  "builtin_echo cmdp s =
     (case cmdp of
        None \<Rightarrow> (- EINVAL, s)
      | Some cmd \<Rightarrow>
          (let s1 = echo_loop (dropWhile (\<lambda>c. \<not> isspace c) cmd) s
           in (0, s1\<lparr>stdout := snd (dprintf (stdout s1) ''\<newline>'')\<rparr>)))"

definition example_shell :: shell where
  "example_shell = \<lparr>jobs = [], last_exit_code = 0, interactive = True, shell_pgid = 100,
     shell_termattr = 7, stdout = \<lparr>written = [], tape = []\<rparr>,
     environ = (\<lambda>n. if n = ''HOME'' then Some ''/root'' else None),
     tty_pgrp = 100, tty_attr = 7, trace = []\<rparr>"

subsection \<open>\<^verbatim>\<open>parse_input\<close>\<close>

text \<open>
  Modelled from the spec: the macros \<^verbatim>\<open>COMMAND_DELIMS\<close> and \<^verbatim>\<open>COMPONENT_DELIMS\<close> of
  \<^verbatim>\<open>parse.h\<close>, which is not among the sources. The specification has the line split
  into commands on \<^verbatim>\<open>|\<close> and a command split into tokens on white space (taken as the
  four characters of \<^verbatim>\<open>BUILTIN_DELIMS\<close>). The functions below take the delimiters as
  arguments; \<^verbatim>\<open>parse_input\<close> is their instance at these two.
\<close>

definition COMMAND_DELIMS :: string where
  "COMMAND_DELIMS = ''|''"

definition COMPONENT_DELIMS :: string where
  "COMPONENT_DELIMS = [CHR '' '', CHR 0x09, CHR 0x0D, CHR 0x0A]"

text \<open>A \<^verbatim>\<open>command_t\<close> as \<^verbatim>\<open>malloc\<close>, \<^verbatim>\<open>memset\<close> and \<^verbatim>\<open>strdup(tok)\<close> leave it.\<close>

definition new_command :: "string \<Rightarrow> command_t" where
  "new_command tok = \<lparr>command = tok, components = [], redirect_stdout = None,
     redirect_stderr = None, redirect_stdin = None, append_stdout = False\<rparr>"

text \<open>
  The path of a redirection whose operator has \<open>n\<close> characters: the rest of the token
  when the token is longer than the operator, the next token otherwise; when there is
  no next token \<^verbatim>\<open>strtok_r\<close> gives \<^verbatim>\<open>NULL\<close> and \<^verbatim>\<open>strdup(NULL)\<close> dereferences it.
\<close>

definition redirection ::
  "string \<Rightarrow> nat \<Rightarrow> string \<Rightarrow> string \<Rightarrow> (string \<times> string) outcome" where
  "redirection cdelims n ctok save =
     (if length ctok > n then Returns (drop n ctok, save)
      else (case strtok_r save cdelims of
              None \<Rightarrow> Crashes
            | Some (path, save') \<Rightarrow> Returns (path, save')))"

text \<open>
  The second half of the body of the component loop: the token is a redirection
  (\<^verbatim>\<open>>>\<close>, \<^verbatim>\<open>>\<close>, \<^verbatim>\<open>2>\<close>, \<^verbatim>\<open><\<close>, tried in this order) or it is appended to the
  components. The result is the new save pointer and the command.
\<close>

definition parse_word ::
  "string \<Rightarrow> string \<Rightarrow> string \<Rightarrow> command_t \<Rightarrow> (string \<times> command_t) outcome" where
  "parse_word cdelims ctok save newc =
     (if strncmp0 ctok ''>>'' 2 then
        (case redirection cdelims 2 ctok save of
           Returns (path, save') \<Rightarrow>
             Returns (save', newc\<lparr>redirect_stdout := Some path, append_stdout := True\<rparr>)
         | _ \<Rightarrow> Crashes)
      else if strncmp0 ctok ''>'' 1 then
        (case redirection cdelims 1 ctok save of
           Returns (path, save') \<Rightarrow> Returns (save', newc\<lparr>redirect_stdout := Some path\<rparr>)
         | _ \<Rightarrow> Crashes)
      else if strncmp0 ctok ''2>'' 2 then
        (case redirection cdelims 2 ctok save of
           Returns (path, save') \<Rightarrow> Returns (save', newc\<lparr>redirect_stderr := Some path\<rparr>)
         | _ \<Rightarrow> Crashes)
      else if strncmp0 ctok ''<'' 1 then
        (case redirection cdelims 1 ctok save of
           Returns (path, save') \<Rightarrow> Returns (save', newc\<lparr>redirect_stdin := Some path\<rparr>)
         | _ \<Rightarrow> Crashes)
      else Returns (save, newc\<lparr>components := components newc @ [ctok]\<rparr>))"

text \<open>
  The body of the component loop for the token \<open>ctok\<close>: a token that begins with
  \<^verbatim>\<open>&\<close> sets the background flag and is done with; a token that ends with \<^verbatim>\<open>&\<close> sets
  the flag and loses that character before it is looked at further.
\<close>

definition parse_component ::
  "string \<Rightarrow> string \<Rightarrow> string \<Rightarrow> bool \<times> command_t \<Rightarrow> (string \<times> bool \<times> command_t) outcome" where
  "parse_component cdelims ctok save st =
     (case st of (bg, newc) \<Rightarrow>
        if hd ctok = CHR ''&'' then Returns (save, True, newc)
        else
          (case parse_word cdelims (if last ctok = CHR ''&'' then butlast ctok else ctok) save newc of
             Returns (save', newc') \<Rightarrow> Returns (save', (last ctok = CHR ''&'' \<or> bg), newc')
           | _ \<Rightarrow> Crashes))"

lemma redirection_save:
  "redirection cdelims n ctok save = Returns (path, save') \<Longrightarrow> length save' \<le> length save"
  by (auto simp: redirection_def split: if_splits option.splits dest: strtok_r_shorter)

lemma parse_word_save:
  "parse_word cdelims ctok save newc = Returns (save', newc') \<Longrightarrow> length save' \<le> length save"
  by (auto simp: parse_word_def split: if_splits outcome.splits dest: redirection_save)

lemma parse_component_save:
  "parse_component cdelims ctok save st = Returns (save', st') \<Longrightarrow> length save' \<le> length save"
  by (auto simp: parse_component_def split: if_splits outcome.splits prod.splits dest: parse_word_save)

text \<open>The component loop, from the text at \<open>cptr\<close> on.\<close>

function parse_components ::
  "string \<Rightarrow> string \<Rightarrow> bool \<times> command_t \<Rightarrow> (bool \<times> command_t) outcome" where
  "parse_components cdelims cptr st =
     (case strtok_r cptr cdelims of
        None \<Rightarrow> Returns st
      | Some (ctok, save) \<Rightarrow>
          (case parse_component cdelims ctok save st of
             Returns (save', st') \<Rightarrow> parse_components cdelims save' st'
           | _ \<Rightarrow> Crashes))"
  by pat_completeness auto
termination
proof (relation "measure (\<lambda>(cdelims, cptr, st). length cptr)", goal_cases)
  case 1
  show ?case by simp
next
  case (2 cdelims cptr st x2 ctok save x1 save' st')
  then have "length save < length cptr" "length save' \<le> length save"
    by (auto dest: strtok_r_shorter parse_component_save)
  then show ?case by simp
qed

declare parse_components.simps [simp del]

text \<open>
  The command loop: every token between command delimiters becomes a command, which is
  appended to the list and then filled by the component loop.
\<close>

function parse_commands ::
  "string \<Rightarrow> string \<Rightarrow> string \<Rightarrow> user_input_t \<Rightarrow> user_input_t outcome" where
  "parse_commands idelims cdelims iptr retval =
     (case strtok_r iptr idelims of
        None \<Rightarrow> Returns retval
      | Some (tok, save) \<Rightarrow>
          (case parse_components cdelims tok (is_background_command retval, new_command tok) of
             Returns (bg, newc) \<Rightarrow>
               parse_commands idelims cdelims save
                 (retval\<lparr>commands := commands retval @ [newc], is_background_command := bg\<rparr>)
           | _ \<Rightarrow> Crashes))"
  by pat_completeness auto
termination
  by (relation "measure (\<lambda>(idelims, cdelims, iptr, retval). length iptr)")
    (auto simp: strtok_r_shorter)

declare parse_commands.simps [simp del]

text \<open>
  \<^verbatim>\<open>parse_input\<close>: \<^verbatim>\<open>NULL\<close> for a \<^verbatim>\<open>NULL\<close> line; otherwise the structure with a copy
  of the line and the commands found, also when none is found.
\<close>

definition parse_input_with :: "string \<Rightarrow> string \<Rightarrow> string option \<Rightarrow> user_input_t option outcome" where
  "parse_input_with idelims cdelims inp =
     (case inp of
        None \<Rightarrow> Returns None
      | Some line \<Rightarrow>
          (case parse_commands idelims cdelims line
                  \<lparr>input = line, commands = [], is_background_command = False\<rparr> of
             Returns retval \<Rightarrow> Returns (Some retval)
           | _ \<Rightarrow> Crashes))"

definition parse_input :: "string option \<Rightarrow> user_input_t option outcome" where
  "parse_input = parse_input_with COMMAND_DELIMS COMPONENT_DELIMS"

subsection \<open>A command read from its list of tokens\<close>

text \<open>
  The reading that the property about \<^verbatim>\<open>&\<close> describes, on the list of the tokens of a
  command (what \<^verbatim>\<open>strtok_r\<close> splits off at the component delimiters), to be compared
  with the loops above.

  A token loses one final \<^verbatim>\<open>&\<close>. A redirection operator that stands alone takes the
  token behind it as its path.
\<close>

definition strip_amp :: "string \<Rightarrow> string" where
  "strip_amp t = (if last t = CHR ''&'' then butlast t else t)"

definition bare_operator :: "string \<Rightarrow> bool" where
  "bare_operator w = (w = ''>>'' \<or> w = ''>'' \<or> w = ''2>'' \<or> w = ''<'')"

definition takes_path :: "string \<Rightarrow> bool" where
  "takes_path t = (hd t \<noteq> CHR ''&'' \<and> bare_operator (strip_amp t))"

text \<open>
  The tokens that are examined: all but those taken as the path of a redirection
  operator that stands alone.
\<close>

function examined :: "string list \<Rightarrow> string list" where
  "examined [] = []"
| "examined (t # ts) = t # examined (if takes_path t then drop 1 ts else ts)"
  by pat_completeness auto
termination
  by (relation "measure length") auto

text \<open>
  What a word \<open>w\<close> (a token without its final \<^verbatim>\<open>&\<close>) does to the command, \<open>ts\<close>
  being the tokens behind it: a redirection with its path, or one more argument.
\<close>

definition put_word :: "string \<Rightarrow> string list \<Rightarrow> command_t \<Rightarrow> command_t" where
  "put_word w ts newc =
     (if take 2 w = ''>>''
        then newc\<lparr>redirect_stdout := Some (if length w > 2 then drop 2 w else hd ts),
                  append_stdout := True\<rparr>
      else if take 1 w = ''>''
        then newc\<lparr>redirect_stdout := Some (if length w > 1 then drop 1 w else hd ts)\<rparr>
      else if take 2 w = ''2>''
        then newc\<lparr>redirect_stderr := Some (if length w > 2 then drop 2 w else hd ts)\<rparr>
      else if take 1 w = ''<''
        then newc\<lparr>redirect_stdin := Some (if length w > 1 then drop 1 w else hd ts)\<rparr>
      else newc\<lparr>components := components newc @ [w]\<rparr>)"

text \<open>
  The command that the tokens give: a token that begins with \<^verbatim>\<open>&\<close> adds nothing; any
  other token is put into the command without its final \<^verbatim>\<open>&\<close>; \<open>None\<close> when a
  redirection operator stands alone at the end.
\<close>

function spec_command :: "string list \<Rightarrow> command_t \<Rightarrow> command_t option" where
  "spec_command [] newc = Some newc"
| "spec_command (t # ts) newc =
     (if hd t = CHR ''&'' then spec_command ts newc
      else if bare_operator (strip_amp t) \<and> ts = [] then None
      else spec_command (if bare_operator (strip_amp t) then drop 1 ts else ts)
             (put_word (strip_amp t) ts newc))"
  by pat_completeness auto
termination
  by (relation "measure (\<lambda>(ts, newc). length ts)") auto

subsection \<open>The job controller of \<^verbatim>\<open>jobs.c\<close>\<close>

text \<open>
  The answers of the operating system during one call: what \<^verbatim>\<open>fork\<close> returns; whether
  the calls \<^verbatim>\<open>tcsetpgrp\<close>, \<^verbatim>\<open>tcsetattr\<close> and \<^verbatim>\<open>killpg\<close> for the job fail; the status
  that \<^verbatim>\<open>waitpid\<close> stores (\<open>None\<close>: it returned no positive pid) and the terminal
  attributes that the job has left when it returns; whether the three calls of
  \<^verbatim>\<open>restore_shell_control\<close> fail.
\<close>

record os_answers =
  fork_pid :: int
  tcsetpgrp_job_fails :: bool
  tcsetattr_job_fails :: bool
  killpg_fails :: bool
  waitpid_status :: "32 word option"
  tty_attr_left :: termios
  tcsetpgrp_shell_fails :: bool
  tcgetattr_fails :: bool
  tcsetattr_shell_fails :: bool

text \<open>A system call is appended to the trace.\<close>

definition syscall :: "syscall \<Rightarrow> shell \<Rightarrow> shell" where
  "syscall c s = s\<lparr>trace := trace s @ [c]\<rparr>"

definition jobs_create :: "user_input_t option \<Rightarrow> job_t option" where
  "jobs_create uip =
     (case uip of
        None \<Rightarrow> None
      | Some u \<Rightarrow> Some \<lparr>ui = u, status = 0, exitcode = 0, pgid = 0, jobid = 0, termattr = 0,
                         is_background_job = False, is_in_bg = False\<rparr>)"

definition run_in_background ::
  "os_answers \<Rightarrow> job_t option \<Rightarrow> bool \<Rightarrow> shell \<Rightarrow> (int \<times> job_t option \<times> shell) outcome" where
  "run_in_background os jp cont s =
     (case jp of
        None \<Rightarrow> Returns (- 1, None, s)
      | Some job \<Rightarrow>
          if \<not> (status job = NEW \<or> status job = SUSPENDED) then Returns (- 1, Some job, s)
          else
            (let job1 = job\<lparr>status := RUNNING, is_in_bg := True\<rparr> in
             if cont then
               (if killpg_fails os then Exits EXIT_FAILURE
                else Returns (0, Some job1, syscall (Killpg (pgid job1) SIGCONT) s))
             else Returns (0, Some job1, s)))"

definition job_wait :: "os_answers \<Rightarrow> job_t option \<Rightarrow> shell \<Rightarrow> int \<times> job_t option \<times> shell" where
  "job_wait os jp s =
     (case jp of
        None \<Rightarrow> (- 1, None, s)
      | Some job \<Rightarrow>
          (let s1 = (syscall (Waitpid (pgid job)) s)\<lparr>tty_attr := tty_attr_left os\<rparr> in
           case waitpid_status os of
             None \<Rightarrow> (0, Some job, s1)
           | Some st \<Rightarrow> (0, snd (job_update_status (Some job) st), s1)))"

definition restore_shell_control ::
  "os_answers \<Rightarrow> termios option \<Rightarrow> shell \<Rightarrow> (int \<times> termios option \<times> shell) outcome" where
  "restore_shell_control os tap s =
     (case tap of
        None \<Rightarrow> Returns (- 1, None, s)
      | Some ta \<Rightarrow>
          if tcsetpgrp_shell_fails os then Exits EXIT_FAILURE
          else
            (let s1 = (syscall (Tcsetpgrp (shell_pgid s)) s)\<lparr>tty_pgrp := shell_pgid s\<rparr> in
             if tcgetattr_fails os then Exits EXIT_FAILURE
             else
               (let ta1 = tty_attr s1; s2 = syscall Tcgetattr s1 in
                if tcsetattr_shell_fails os then Exits EXIT_FAILURE
                else Returns (0, Some ta1,
                       (syscall (Tcsetattr (shell_termattr s2)) s2)\<lparr>tty_attr := shell_termattr s2\<rparr>))))"

text \<open>
  The end of \<^verbatim>\<open>run_in_foreground\<close>, from \<^verbatim>\<open>job_wait(job)\<close> on: wait, give the terminal
  back to the shell (the terminal attributes go to \<^verbatim>\<open>job->termattr\<close>), then record the
  exit code of an \<open>EXITED\<close> job or print a \<open>SUSPENDED\<close> one.
\<close>

definition fg_finish ::
  "os_answers \<Rightarrow> job_t \<Rightarrow> shell \<Rightarrow> (int \<times> job_t option \<times> shell) outcome" where
  "fg_finish os job1 s =
     (case job_wait os (Some job1) s of
        (w, None, s1) \<Rightarrow> Crashes
      | (w, Some job2, s1) \<Rightarrow>
          (case restore_shell_control os (Some (termattr job2)) s1 of
             Returns (r, Some ta, s2) \<Rightarrow>
               (let job3 = job2\<lparr>termattr := ta\<rparr> in
                if status job3 = EXITED
                  then Returns (0, Some job3, s2\<lparr>last_exit_code := exitcode job3\<rparr>)
                else if status job3 = SUSPENDED
                  then Returns (0, Some job3, s2\<lparr>stdout := snd (print_job (Some job3) (stdout s2))\<rparr>)
                else Returns (0, Some job3, s2))
           | Returns (r, None, s2) \<Rightarrow> Crashes
           | Exits c \<Rightarrow> Exits c
           | Child cmd g f \<Rightarrow> Child cmd g f
           | Crashes \<Rightarrow> Crashes))"

definition run_in_foreground ::
  "os_answers \<Rightarrow> job_t option \<Rightarrow> bool \<Rightarrow> shell \<Rightarrow> (int \<times> job_t option \<times> shell) outcome" where
  "run_in_foreground os jp cont s =
     (case jp of
        None \<Rightarrow> Returns (- 1, None, s)
      | Some job \<Rightarrow>
          if \<not> (status job = NEW \<or> status job = SUSPENDED \<or> status job = RUNNING)
            then Returns (- 1, Some job, s)
          else if status job = RUNNING \<and> \<not> is_in_bg job
            then Returns (- 1, Some job, s)
          else
            (let orig_status = status job;
                 job1 = job\<lparr>status := RUNNING, is_in_bg := False\<rparr> in
             if tcsetpgrp_job_fails os then Exits EXIT_FAILURE
             else
               (let s1 = (syscall (Tcsetpgrp (pgid job1)) s)\<lparr>tty_pgrp := pgid job1\<rparr> in
                if cont \<and> orig_status \<noteq> RUNNING then
                  (if tcsetattr_job_fails os then Exits EXIT_FAILURE
                   else
                     (let s2 = (syscall (Tcsetattr (termattr job1)) s1)\<lparr>tty_attr := termattr job1\<rparr> in
                      if killpg_fails os then Exits EXIT_FAILURE
                      else fg_finish os job1 (syscall (Killpg (pgid job1) SIGCONT) s2)))
                else fg_finish os job1 s1)))"

text \<open>
  \<^verbatim>\<open>exec_job\<close>: the job is inserted into the table and is its last node from then on (the
  model writes the pointee back there at the end); the first command is forked; the
  parent waits for the job (not interactive), or runs it in the background or in the
  foreground.
\<close>

definition exec_job :: "os_answers \<Rightarrow> job_t option \<Rightarrow> shell \<Rightarrow> (int \<times> shell) outcome" where
  "exec_job os jp s =
     (case jp of
        None \<Rightarrow> Returns (- 1, s)
      | Some job0 \<Rightarrow>
          (case jobs_insert (Some job0) (jobs s) of
             (r, tbl) \<Rightarrow>
               if r < 0 then Exits EXIT_FAILURE
               else
                 (let s1 = s\<lparr>jobs := tbl\<rparr>; job = last tbl in
                  case commands (ui job) of
                    [] \<Rightarrow> Returns (- 1, s1)
                  | cmd # cmds \<Rightarrow>
                      (let ppid = fork_pid os; s2 = syscall Fork s1 in
                       if ppid < 0 then Exits EXIT_FAILURE
                       else if ppid = 0
                         then Child cmd ppid (\<not> is_background_command (ui job))
                       else
                         (let job1 = job\<lparr>pgid := ppid\<rparr>;
                              s3 = (if interactive s2 then syscall (Setpgid ppid ppid) s2 else s2);
                              done = (\<lambda>jobp s'. case jobp of
                                         None \<Rightarrow> Crashes
                                       | Some j \<Rightarrow> Returns (0, s'\<lparr>jobs := butlast tbl @ [j]\<rparr>))
                          in
                          if \<not> interactive s3 then
                            (case job_wait os (Some job1) s3 of
                               (w, None, s4) \<Rightarrow> Crashes
                             | (w, Some job2, s4) \<Rightarrow>
                                 done (Some job2) (s4\<lparr>last_exit_code := exitcode job2\<rparr>))
                          else if is_background_command (ui job1) then
                            (case run_in_background os (Some job1) False s3 of
                               Returns (r, jobp, s4) \<Rightarrow> done jobp s4
                             | Exits c \<Rightarrow> Exits c
                             | Child c g f \<Rightarrow> Child c g f
                             | Crashes \<Rightarrow> Crashes)
                          else
                            (case run_in_foreground os (Some job1) False s3 of
                               Returns (r, jobp, s4) \<Rightarrow> done jobp s4
                             | Exits c \<Rightarrow> Exits c
                             | Child c g f \<Rightarrow> Child c g f
                             | Crashes \<Rightarrow> Crashes))))))"

text \<open>
  The end of the body of the loop of \<^verbatim>\<open>smash_main\<close>, for a line that is no builtin:
  parse, create the job, execute it; \<open>Returns\<close> is the \<^verbatim>\<open>continue\<close> of the loop.
\<close>

definition smash_run_line :: "os_answers \<Rightarrow> string \<Rightarrow> shell \<Rightarrow> shell outcome" where
  "smash_run_line os trimmed_buf s =
     (case parse_input (Some trimmed_buf) of
        Returns None \<Rightarrow> Returns s
      | Returns (Some u) \<Rightarrow>
          (case jobs_create (Some u) of
             None \<Rightarrow> Exits EXIT_FAILURE
           | Some j \<Rightarrow>
               (case exec_job os (Some j) s of
                  Returns (r, s') \<Rightarrow> Returns s'
                | Exits c \<Rightarrow> Exits c
                | Child c g f \<Rightarrow> Child c g f
                | Crashes \<Rightarrow> Crashes))
      | Exits c \<Rightarrow> Exits c
      | Child c g f \<Rightarrow> Child c g f
      | Crashes \<Rightarrow> Crashes)"

definition example_os :: os_answers where
  "example_os = \<lparr>fork_pid = 4242, tcsetpgrp_job_fails = False, tcsetattr_job_fails = False,
     killpg_fails = False, waitpid_status = Some 0x147f, tty_attr_left = 9,
     tcsetpgrp_shell_fails = False, tcgetattr_fails = False, tcsetattr_shell_fails = False\<rparr>"

section \<open>Wait statuses and the status transition\<close>

lemmas status_defs = NEW_def RUNNING_def SUSPENDED_def EXITED_def ABORTED_def CANCELED_def

lemma low7_of_low8: "st AND 0xff = 0x7f \<Longrightarrow> st AND 0x7f = (0x7f :: 32 word)"
proof -
  assume a: "st AND 0xff = 0x7f"
  have "st AND 0x7f = (st AND 0xff) AND 0x7f"
    by (simp add: and.assoc)
  also have "\<dots> = 0x7f"
    by (simp add: a)
  finally show ?thesis .
qed

lemma stopped_not_continued: "WIFSTOPPED st \<Longrightarrow> \<not> WIFCONTINUED st"
  by (auto simp: WIFSTOPPED_def WIFCONTINUED_def)

lemma stopped_not_signaled: "WIFSTOPPED st \<Longrightarrow> \<not> WIFSIGNALED st"
  unfolding WIFSTOPPED_def WIFSIGNALED_def
  by (drule low7_of_low8) simp

lemma stopped_not_exited: "WIFSTOPPED st \<Longrightarrow> \<not> WIFEXITED st"
  unfolding WIFSTOPPED_def WIFEXITED_def
  by (auto dest: low7_of_low8)

lemma continued_not_signaled: "WIFCONTINUED st \<Longrightarrow> \<not> WIFSIGNALED st"
  by (simp add: WIFCONTINUED_def WIFSIGNALED_def)

lemma continued_not_exited: "WIFCONTINUED st \<Longrightarrow> \<not> WIFEXITED st"
  by (simp add: WIFCONTINUED_def WIFEXITED_def)

lemma signaled_not_exited: "WIFSIGNALED st \<Longrightarrow> \<not> WIFEXITED st"
  by (auto simp: WIFSIGNALED_def WIFEXITED_def)

text \<open>
  C1. For every wait status given to \<^verbatim>\<open>job_update_status\<close> with a job that is not
  \<^verbatim>\<open>NULL\<close>: a stopped child makes the job \<open>SUSPENDED\<close>, a continued child makes it
  \<open>RUNNING\<close>, and in both cases every other field, \<open>exitcode\<close> among them, is as before;
  a child killed by a signal makes it \<open>ABORTED\<close> with the signal number as \<open>exitcode\<close>;
  a child that exited makes it \<open>EXITED\<close> with the exit status as \<open>exitcode\<close>.
\<close>

theorem job_update_status_transitions:
  "(WIFSTOPPED st \<longrightarrow>
      job_update_status (Some j) st = (0, Some (j\<lparr>status := SUSPENDED\<rparr>))) \<and>
   (WIFCONTINUED st \<longrightarrow>
      job_update_status (Some j) st = (0, Some (j\<lparr>status := RUNNING\<rparr>))) \<and>
   (WIFSIGNALED st \<longrightarrow>
      job_update_status (Some j) st =
        (0, Some (j\<lparr>status := ABORTED, exitcode := WTERMSIG st\<rparr>))) \<and>
   (WIFEXITED st \<longrightarrow>
      job_update_status (Some j) st =
        (0, Some (j\<lparr>status := EXITED, exitcode := WEXITSTATUS st\<rparr>)))"
proof (intro conjI impI)
  assume "WIFSTOPPED st"
  then show "job_update_status (Some j) st = (0, Some (j\<lparr>status := SUSPENDED\<rparr>))"
    by (simp add: job_update_status_def)
next
  assume c: "WIFCONTINUED st"
  then have "\<not> WIFSTOPPED st"
    using stopped_not_continued by blast
  with c show "job_update_status (Some j) st = (0, Some (j\<lparr>status := RUNNING\<rparr>))"
    by (simp add: job_update_status_def)
next
  assume s: "WIFSIGNALED st"
  then have "\<not> WIFSTOPPED st" "\<not> WIFCONTINUED st"
    using stopped_not_signaled continued_not_signaled by blast+
  with s show "job_update_status (Some j) st =
      (0, Some (j\<lparr>status := ABORTED, exitcode := WTERMSIG st\<rparr>))"
    by (simp add: job_update_status_def)
next
  assume e: "WIFEXITED st"
  then have "\<not> WIFSTOPPED st" "\<not> WIFCONTINUED st" "\<not> WIFSIGNALED st"
    using stopped_not_exited continued_not_exited signaled_not_exited by blast+
  with e show "job_update_status (Some j) st =
      (0, Some (j\<lparr>status := EXITED, exitcode := WEXITSTATUS st\<rparr>))"
    by (simp add: job_update_status_def)
qed

theorem job_update_status_transitions_witness:
  "WIFSTOPPED 0x147f \<and>
   job_update_status (Some example_job) 0x147f = (0, Some (example_job\<lparr>status := 2\<rparr>)) \<and>
   WIFCONTINUED 0xffff \<and>
   job_update_status (Some example_job) 0xffff = (0, Some (example_job\<lparr>status := 1\<rparr>)) \<and>
   WIFSIGNALED 9 \<and>
   job_update_status (Some example_job) 9 =
     (0, Some (example_job\<lparr>status := 4, exitcode := 9\<rparr>)) \<and>
   WIFEXITED 0x300 \<and>
   job_update_status (Some example_job) 0x300 =
     (0, Some (example_job\<lparr>status := 3, exitcode := 3\<rparr>))"
proof -
  have a: "WIFSTOPPED 0x147f" "WIFCONTINUED 0xffff" "WIFSIGNALED 9" "WIFEXITED 0x300"
    by (simp_all add: WIFSTOPPED_def WIFCONTINUED_def WIFSIGNALED_def WIFEXITED_def)
  have b: "WTERMSIG 9 = 9" "WEXITSTATUS 0x300 = 3"
    by (simp_all add: WTERMSIG_def WEXITSTATUS_def)
  show ?thesis
    using a b
      job_update_status_transitions [of "0x147f" example_job]
      job_update_status_transitions [of "0xffff" example_job]
      job_update_status_transitions [of 9 example_job]
      job_update_status_transitions [of "0x300" example_job]
    by (simp add: status_defs)
qed

section \<open>The job table\<close>

lemma print_job_written:
  "print_job (Some j) out = (0, out') \<Longrightarrow> written out' = written out @ job_line j"
  by (auto simp: print_job_def dprintf_def job_line_def split: list.splits if_splits)

lemma print_job_tape_empty:
  "tape out = [] \<Longrightarrow> fst (print_job (Some j) out) = 0 \<and> tape (snd (print_job (Some j) out)) = []"
  by (simp add: print_job_def dprintf_def)

lemma print_job_retval:
  "fst (print_job (Some j) out) = 0 \<or> fst (print_job (Some j) out) = - 1"
  by (auto simp: print_job_def dprintf_def split: list.splits)

lemma jobs_remove_at:
  "p < length js \<Longrightarrow> jobs_remove (Some p) js = (0, take p js @ drop (Suc p) js)"
  by (simp add: jobs_remove_def unlink_eq)

lemma jobs_list_loop_result:
  "jobs_list_loop p js out = (0, js', out') \<Longrightarrow>
     js' = take p js @ filter (\<lambda>j. status j \<noteq> EXITED \<and> status j \<noteq> ABORTED) (drop p js) \<and>
     written out' = written out @ concat (map job_line (drop p js))"
proof (induction p js out rule: jobs_list_loop.induct)
  case (1 p js out)
  show ?case
  proof (cases "p < length js")
    case False
    with "1.prems" show ?thesis
      by (simp add: jobs_list_loop.simps)
  next
    case True
    obtain r o1 where pj: "print_job (Some (js ! p)) out = (r, o1)"
      by (cases "print_job (Some (js ! p)) out") auto
    from "1.prems" True pj have r0: "r = 0"
      by (simp add: jobs_list_loop.simps split: if_splits)
    with pj have w: "written o1 = written out @ job_line (js ! p)"
      by (simp add: print_job_written)
    from True have dr: "drop p js = js ! p # drop (Suc p) js"
      by (simp add: Cons_nth_drop_Suc)
    show ?thesis
    proof (cases "status (js ! p) = EXITED \<or> status (js ! p) = ABORTED")
      case dead: True
      let ?js1 = "snd (jobs_remove (Some p) js)"
      from "1.prems" True pj r0 dead have "jobs_list_loop p ?js1 o1 = (0, js', out')"
        by (simp add: jobs_list_loop.simps)
      with "1.IH"(1) [OF True pj [symmetric] _ dead] r0
      have ih: "js' = take p ?js1 @ filter (\<lambda>j. status j \<noteq> EXITED \<and> status j \<noteq> ABORTED) (drop p ?js1)"
        "written out' = written o1 @ concat (map job_line (drop p ?js1))"
        by auto
      from True have js1: "?js1 = take p js @ drop (Suc p) js"
        by (simp add: jobs_remove_at)
      from True have "take p ?js1 = take p js" "drop p ?js1 = drop (Suc p) js"
        by (simp_all add: js1)
      with ih w dr dead show ?thesis by auto
    next
      case live: False
      from "1.prems" True pj r0 live have "jobs_list_loop (Suc p) js o1 = (0, js', out')"
        by (simp add: jobs_list_loop.simps)
      with "1.IH"(2) [OF True pj [symmetric] _ live] r0
      have ih: "js' = take (Suc p) js @ filter (\<lambda>j. status j \<noteq> EXITED \<and> status j \<noteq> ABORTED) (drop (Suc p) js)"
        "written out' = written o1 @ concat (map job_line (drop (Suc p) js))"
        by auto
      from True have "take (Suc p) js = take p js @ [js ! p]"
        by (simp add: take_Suc_conv_app_nth)
      with ih w dr live show ?thesis by auto
    qed
  qed
qed

lemma jobs_list_loop_succeeds:
  "tape out = [] \<Longrightarrow> fst (jobs_list_loop p js out) = 0"
proof (induction p js out rule: jobs_list_loop.induct)
  case (1 p js out)
  show ?case
  proof (cases "p < length js")
    case False
    then show ?thesis by (simp add: jobs_list_loop.simps)
  next
    case True
    obtain r o1 where pj: "print_job (Some (js ! p)) out = (r, o1)"
      by (cases "print_job (Some (js ! p)) out") auto
    with print_job_tape_empty [OF "1.prems", of "js ! p"] have r0: "r = 0" "tape o1 = []"
      by auto
    show ?thesis
    proof (cases "status (js ! p) = EXITED \<or> status (js ! p) = ABORTED")
      case dead: True
      from "1.IH"(1) [OF True pj [symmetric] _ dead] r0 
      have "fst (jobs_list_loop p (snd (jobs_remove (Some p) js)) o1) = 0" by simp
      with True pj r0 dead show ?thesis
        by (simp add: jobs_list_loop.simps [of p js out])
    next
      case live: False
      from "1.IH"(2) [OF True pj [symmetric] _ live] r0 
      have "fst (jobs_list_loop (Suc p) js o1) = 0" by simp
      with True pj r0 live show ?thesis
        by (simp add: jobs_list_loop.simps [of p js out])
    qed
  qed
qed

text \<open>
  C3. When \<^verbatim>\<open>jobs_list\<close> returns 0, the text written is one line for every job of
  the table, in table order, each job once; the table that is left is the old one
  without its \<open>EXITED\<close> and \<open>ABORTED\<close> jobs, so none of those remains and all other
  jobs stay. It does return 0 whenever standard output accepts the writes.
\<close>

theorem jobs_list_reports_and_collects:
  "(jobs_list js out = (0, js', out') \<longrightarrow>
      js' = filter (\<lambda>j. status j \<noteq> EXITED \<and> status j \<noteq> ABORTED) js \<and>
      written out' = written out @ concat (map job_line js) \<and>
      (\<forall>j \<in> set js'. status j \<noteq> EXITED \<and> status j \<noteq> ABORTED)) \<and>
   (tape out = [] \<longrightarrow> fst (jobs_list js out) = 0)"
proof (intro conjI impI)
  assume a: "jobs_list js out = (0, js', out')"
  then have r: "js' = take 0 js @ filter (\<lambda>j. status j \<noteq> EXITED \<and> status j \<noteq> ABORTED) (drop 0 js)"
      "written out' = written out @ concat (map job_line (drop 0 js))"
    using jobs_list_loop_result [of 0 js out js' out'] by (simp_all add: jobs_list_def)
  from r(1) show "js' = filter (\<lambda>j. status j \<noteq> EXITED \<and> status j \<noteq> ABORTED) js" by simp
  then show "\<forall>j \<in> set js'. status j \<noteq> EXITED \<and> status j \<noteq> ABORTED" by simp
  from r(2) show "written out' = written out @ concat (map job_line js)" by simp
next
  assume "tape out = []"
  then show "fst (jobs_list js out) = 0"
    by (simp add: jobs_list_def jobs_list_loop_succeeds)
qed

subsection \<open>Decimal output\<close>

lemma digit_char_value: "d < 10 \<Longrightarrow> of_char (digit_char d) = (48 + d :: nat)"
proof -
  assume "d < 10"
  then have "d \<in> {0, 1, 2, 3, 4, 5, 6, 7, 8, 9}" by auto
  then show ?thesis
    by (auto simp: digit_char_def)
qed

text \<open>Reading the digits that \<^verbatim>\<open>%d\<close> prints gives the number back.\<close>

lemma dec_nat_value: "digits_value (dec_nat n) = n"
proof (induction n rule: dec_nat.induct)
  case (1 n)
  show ?case
  proof (cases "n < 10")
    case True
    then show ?thesis
      by (simp add: dec_nat.simps [of n] digits_value_def digit_char_value)
  next
    case False
    with "1.IH" have "digits_value (dec_nat (n div 10)) = n div 10" by simp
    with False show ?thesis
      by (simp add: dec_nat.simps [of n] digits_value_def digit_char_value)
  qed
qed

theorem jobs_list_reports_and_collects_witness:
  "jobs_list [example_job, example_job\<lparr>status := EXITED, jobid := 2\<rparr>] \<lparr>written = [], tape = []\<rparr> =
     (0, [example_job],
      \<lparr>written = ''[1] (running) sleep 60\<newline>[2] (exited <0>) sleep 60\<newline>'', tape = []\<rparr>) \<and>
   [example_job] =
     filter (\<lambda>j. status j \<noteq> EXITED \<and> status j \<noteq> ABORTED)
       [example_job, example_job\<lparr>status := EXITED, jobid := 2\<rparr>] \<and>
   status example_job \<noteq> EXITED \<and> status example_job \<noteq> ABORTED"
proof -
  let ?js = "[example_job, example_job\<lparr>status := EXITED, jobid := 2\<rparr>]"
  let ?out = "\<lparr>written = [], tape = []\<rparr>"
  have run: "jobs_list ?js ?out =
     (0, [example_job],
      \<lparr>written = ''[1] (running) sleep 60\<newline>[2] (exited <0>) sleep 60\<newline>'', tape = []\<rparr>)"
    by (simp add: jobs_list_def jobs_list_loop.simps print_job_def dprintf_def jobs_remove_def
        example_job_def example_ui_def status_defs fmt_d_def fmt_s_def dec_nat.simps digit_char_def
        jobs_status_as_char_def)
  show ?thesis
    using run jobs_list_reports_and_collects [of ?js ?out "[example_job]"
        "\<lparr>written = ''[1] (running) sleep 60\<newline>[2] (exited <0>) sleep 60\<newline>'', tape = []\<rparr>"]
    by (simp add: example_job_def status_defs)
qed

text \<open>
  C9, as amended. For a job whose status is one of the six of \<^verbatim>\<open>jobs.h\<close>,
  \<^verbatim>\<open>print_job\<close> writes \<^verbatim>\<open>[<id>] (<status>) <input>\<close> and a newline when the status
  is neither \<open>EXITED\<close> nor \<open>ABORTED\<close>, and \<^verbatim>\<open>[<id>] (<status> <<exitcode>>) <input>\<close>
  and a newline when it is: the exit code stands between the characters \<^verbatim>\<open><\<close> and
  \<^verbatim>\<open>>\<close>. The status is its lower-case name, id and exit code are decimal, and the
  input is the line as \<^verbatim>\<open>parse_input\<close> stored it.
\<close>

theorem print_job_format:
  "jobs_status_as_char NEW = Some ''new'' \<and>
   jobs_status_as_char RUNNING = Some ''running'' \<and>
   jobs_status_as_char SUSPENDED = Some ''suspended'' \<and>
   jobs_status_as_char EXITED = Some ''exited'' \<and>
   jobs_status_as_char ABORTED = Some ''aborted'' \<and>
   jobs_status_as_char CANCELED = Some ''canceled'' \<and>
   (tape out = [] \<longrightarrow> fst (print_job (Some j) out) = 0) \<and>
   (jobs_status_as_char (status j) = Some name \<and> print_job (Some j) out = (0, out') \<longrightarrow>
      written out' = written out @
        (if status j = EXITED \<or> status j = ABORTED
         then ''['' @ fmt_d (jobid j) @ ''] ('' @ name @ '' <'' @ fmt_d (exitcode j) @ ''>) '' @
              input (ui j) @ ''\<newline>''
         else ''['' @ fmt_d (jobid j) @ ''] ('' @ name @ '') '' @ input (ui j) @ ''\<newline>''))"
proof (intro conjI impI)
  show "tape out = [] \<Longrightarrow> fst (print_job (Some j) out) = 0"
    by (simp add: print_job_tape_empty)
next
  assume a: "jobs_status_as_char (status j) = Some name \<and> print_job (Some j) out = (0, out')"
  then have w: "written out' = written out @ job_line j"
    by (simp add: print_job_written)
  from a have n: "fmt_s (jobs_status_as_char (status j)) = name"
    by (simp add: fmt_s_def)
  have "job_line j =
        (if status j = EXITED \<or> status j = ABORTED
         then ''['' @ fmt_d (jobid j) @ ''] ('' @ name @ '' <'' @ fmt_d (exitcode j) @ ''>) '' @
              input (ui j) @ ''\<newline>''
         else ''['' @ fmt_d (jobid j) @ ''] ('' @ name @ '') '' @ input (ui j) @ ''\<newline>'')"
    unfolding job_line_def print_job_def dprintf_def using n by auto
  with w show "written out' = written out @
        (if status j = EXITED \<or> status j = ABORTED
         then ''['' @ fmt_d (jobid j) @ ''] ('' @ name @ '' <'' @ fmt_d (exitcode j) @ ''>) '' @
              input (ui j) @ ''\<newline>''
         else ''['' @ fmt_d (jobid j) @ ''] ('' @ name @ '') '' @ input (ui j) @ ''\<newline>'')"
    by (simp only:)
qed (simp_all add: jobs_status_as_char_def status_defs)

theorem print_job_format_witness:
  "jobs_status_as_char (status example_job) = Some ''running'' \<and>
   print_job (Some example_job) \<lparr>written = [], tape = []\<rparr> =
     (0, \<lparr>written = ''[1] (running) sleep 60\<newline>'', tape = []\<rparr>) \<and>
   written \<lparr>written = ''[1] (running) sleep 60\<newline>'', tape = []\<rparr> =
     ''['' @ fmt_d 1 @ ''] ('' @ ''running'' @ '') '' @ ''sleep 60'' @ ''\<newline>''"
proof -
  have n: "jobs_status_as_char (status example_job) = Some ''running''"
    by (simp add: jobs_status_as_char_def example_job_def status_defs)
  have p: "print_job (Some example_job) \<lparr>written = [], tape = []\<rparr> =
     (0, \<lparr>written = ''[1] (running) sleep 60\<newline>'', tape = []\<rparr>)"
    by (simp add: print_job_def dprintf_def example_job_def example_ui_def status_defs
        fmt_d_def fmt_s_def dec_nat.simps digit_char_def jobs_status_as_char_def)
  show ?thesis
    using n p print_job_format [of "\<lparr>written = [], tape = []\<rparr>" example_job "''running''"
        "\<lparr>written = ''[1] (running) sleep 60\<newline>'', tape = []\<rparr>"]
    by (simp add: example_job_def example_ui_def status_defs)
qed

text \<open>
  The line of the specification, with the bare exit code, is not what an exited job
  prints.
\<close>

theorem print_job_exit_code_counterexample:
  "print_job (Some (example_job\<lparr>status := EXITED\<rparr>)) \<lparr>written = [], tape = []\<rparr> =
     (0, \<lparr>written = ''[1] (exited <0>) sleep 60\<newline>'', tape = []\<rparr>) \<and>
   spec_job_line (example_job\<lparr>status := EXITED\<rparr>) = ''[1] (exited 0) sleep 60\<newline>'' \<and>
   written (snd (print_job (Some (example_job\<lparr>status := EXITED\<rparr>)) \<lparr>written = [], tape = []\<rparr>)) \<noteq>
     spec_job_line (example_job\<lparr>status := EXITED\<rparr>)"
  by (simp add: print_job_def dprintf_def spec_job_line_def example_job_def example_ui_def status_defs
      fmt_d_def fmt_s_def dec_nat.simps digit_char_def jobs_status_as_char_def)

section \<open>Job ids\<close>














section \<open>Builtins\<close>

lemma strncmp0_whole: "(strncmp0 a b (length a) \<and> length a = length b) = (a = b)"
  by (auto simp: strncmp0_def)

lemma upt_NUM_BUILTINS: "[0 ..< NUM_BUILTINS] = [0, 1, 2, 3, 4, 5, 6, 7]"
  by (simp add: NUM_BUILTINS_def upt_rec)

lemma is_builtin_index:
  assumes "strtok_r cmd BUILTIN_DELIMS = Some (tok, save)"
  shows "is_builtin (Some cmd) =
     (if tok = ''exit'' then 0 else if tok = ''cd'' then 1 else if tok = ''pwd'' then 2
      else if tok = ''echo'' then 3 else if tok = ''jobs'' then 4 else if tok = ''fg'' then 5
      else if tok = ''bg'' then 6 else if tok = ''kill'' then 7 else - 1)"
  unfolding is_builtin_def upt_NUM_BUILTINS
  by (simp add: assms strncmp0_whole builtins_def)

lemma is_builtin_no_token:
  "strtok_r cmd BUILTIN_DELIMS = None \<Longrightarrow> is_builtin (Some cmd) = - 1"
  by (simp add: is_builtin_def)

lemma is_builtin_exit_iff:
  "(is_builtin (Some cmd) = 0) = (\<exists>save. strtok_r cmd BUILTIN_DELIMS = Some (''exit'', save))"
proof (cases "strtok_r cmd BUILTIN_DELIMS")
  case None
  then show ?thesis by (simp add: is_builtin_no_token)
next
  case (Some p)
  then obtain tok save where "strtok_r cmd BUILTIN_DELIMS = Some (tok, save)"
    by (cases p) auto
  then show ?thesis
    by (auto simp: is_builtin_index split: if_splits)
qed

text \<open>
  C10. \<^verbatim>\<open>builtin_exit\<close> calls \<^verbatim>\<open>exit(0)\<close> exactly when the line it is given is the four
  characters \<^verbatim>\<open>exit\<close>. For every other line, and so for every dispatched line with more
  text after \<^verbatim>\<open>exit\<close> (the lines whose first token is \<^verbatim>\<open>exit\<close> are the ones dispatched
  to it), it returns \<^verbatim>\<open>-EINVAL\<close> and the state of the shell is what it was.
\<close>

theorem builtin_exit_only_bare:
  "(builtin_exit (Some cmd) s = Exits 0) = (cmd = ''exit'') \<and>
   (cmd \<noteq> ''exit'' \<longrightarrow> builtin_exit (Some cmd) s = Returns (- EINVAL, s)) \<and>
   (is_builtin (Some cmd) = 0) = (\<exists>save. strtok_r cmd BUILTIN_DELIMS = Some (''exit'', save))"
proof -
  have "(length cmd = 4 \<and> strncmp0 cmd ''exit'' 4) = (cmd = ''exit'')"
  proof
    assume a: "length cmd = 4 \<and> strncmp0 cmd ''exit'' 4"
    then have "take (length cmd) cmd = take 4 ''exit''"
      by (simp add: strncmp0_def)
    then show "cmd = ''exit''" by simp
  next
    assume "cmd = ''exit''"
    then show "length cmd = 4 \<and> strncmp0 cmd ''exit'' 4"
      by (simp add: strncmp0_def)
  qed
  then show ?thesis
    by (auto simp: builtin_exit_def is_builtin_exit_iff)
qed

theorem builtin_exit_only_bare_witness:
  "is_builtin (Some ''exit 1'') = 0 \<and>
   builtin_exit (Some ''exit 1'') example_shell = Returns (- 22, example_shell) \<and>
   is_builtin (Some ''exit'') = 0 \<and>
   builtin_exit (Some ''exit'') example_shell = Exits 0"
proof -
  have t: "strtok_r ''exit 1'' BUILTIN_DELIMS = Some (''exit'', ''1'')"
    "strtok_r ''exit'' BUILTIN_DELIMS = Some (''exit'', [])"
    by (simp_all add: strtok_r_def BUILTIN_DELIMS_def)
  show ?thesis
    using t builtin_exit_only_bare [of "''exit 1''" example_shell]
      builtin_exit_only_bare [of "''exit''" example_shell]
    by (simp add: EINVAL_def)
qed

lemma dprintf_ok:
  "tape f = [] \<Longrightarrow> snd (dprintf f t) = f\<lparr>written := written f @ t\<rparr>"
  by (simp add: dprintf_def)

lemma strtok_r_skip_delim:
  "d \<in> set delim \<Longrightarrow> strtok_r (d # r) delim = strtok_r r delim"
  by (simp add: strtok_r_def)

lemma strtok_r_token_nonempty: "strtok_r s delim = Some (tok, save) \<Longrightarrow> tok \<noteq> []"
proof -
  assume a: "strtok_r s delim = Some (tok, save)"
  define s1 where "s1 = dropWhile (\<lambda>c. c \<in> set delim) s"
  from a have ne: "s1 \<noteq> []" and tk: "tok = takeWhile (\<lambda>c. c \<notin> set delim) s1"
    by (auto simp: strtok_r_def Let_def s1_def split: if_splits)
  from ne have "hd s1 \<notin> set delim"
    unfolding s1_def by (rule hd_dropWhile)
  with ne tk show ?thesis
    by (cases s1) auto
qed

lemma tokens_skip_delim:
  "d \<in> set delim \<Longrightarrow> tokens (d # r) delim = tokens r delim"
  by (simp add: tokens.simps [of "d # r"] tokens.simps [of r] strtok_r_skip_delim)

lemma tokens_Nil: "tokens [] delim = []"
  by (simp add: tokens.simps strtok_r_def)

lemma echo_loop_step:
  assumes "strtok_r c BUILTIN_DELIMS = Some (tok, save)" and "tape (stdout s) = []"
  shows "echo_loop c s =
     echo_loop save (s\<lparr>stdout := (stdout s)\<lparr>written := written (stdout s) @
        (if tok = ''$?'' then fmt_d (last_exit_code s)
         else if hd tok = CHR ''$''
           then (case environ s (tl tok) of None \<Rightarrow> [] | Some v \<Rightarrow> v)
           else tok) @ '' ''\<rparr>\<rparr>)"
proof -
  from assms(1) have ne: "tok \<noteq> []"
    by (rule strtok_r_token_nonempty)
  have q: "(tok = ''$?'') = (hd tok = CHR ''$'' \<and> tl tok = ''?'')"
    using ne by (cases tok) auto
  show ?thesis
    using assms q by (simp add: echo_loop.simps [of c] Let_def dprintf_ok)
qed

lemma echo_loop_written_gen:
  "tape (stdout s) = [] \<Longrightarrow> last_exit_code s = lec \<Longrightarrow> environ s = env \<Longrightarrow>
   echo_loop c s =
     s\<lparr>stdout := (stdout s)\<lparr>written := written (stdout s) @
        concat (map (\<lambda>t. (if t = ''$?'' then fmt_d lec
                          else if hd t = CHR ''$''
                            then (case env (tl t) of None \<Rightarrow> [] | Some v \<Rightarrow> v)
                            else t) @ '' '')
                 (tokens c BUILTIN_DELIMS))\<rparr>\<rparr>"
proof (induction "length c" arbitrary: c s rule: less_induct)
  case less
  define w where "w = (\<lambda>t. (if t = ''$?'' then fmt_d lec
                          else if hd t = CHR ''$''
                            then (case env (tl t) of None \<Rightarrow> [] | Some v \<Rightarrow> v)
                            else t) @ '' '')"
  show ?case
  proof (cases "strtok_r c BUILTIN_DELIMS")
    case None
    then show ?thesis
      by (simp add: echo_loop.simps [of c] tokens.simps [of c])
  next
    case (Some p)
    then obtain tok save where ts: "strtok_r c BUILTIN_DELIMS = Some (tok, save)"
      by (cases p) auto
    define s1 where "s1 = s\<lparr>stdout := (stdout s)\<lparr>written := written (stdout s) @ w tok\<rparr>\<rparr>"
    have st: "echo_loop c s = echo_loop save s1"
      using echo_loop_step [OF ts less.prems(1)] less.prems(2,3) by (simp add: s1_def w_def)
    have s1p: "tape (stdout s1) = []" "last_exit_code s1 = lec" "environ s1 = env"
      using less.prems by (simp_all add: s1_def)
    have "length save < length c"
      using ts by (rule strtok_r_shorter)
    then have "echo_loop save s1 =
       s1\<lparr>stdout := (stdout s1)\<lparr>written := written (stdout s1) @
          concat (map w (tokens save BUILTIN_DELIMS))\<rparr>\<rparr>"
      unfolding w_def using s1p by (rule less.hyps)
    also have "\<dots> = s\<lparr>stdout := (stdout s)\<lparr>written := written (stdout s) @
          concat (map w (tokens c BUILTIN_DELIMS))\<rparr>\<rparr>"
      using ts by (simp add: s1_def tokens.simps [of c])
    finally show ?thesis
      using st by (simp add: w_def)
  qed
qed

lemma echo_loop_written:
  "tape (stdout s) = [] \<Longrightarrow>
   echo_loop c s =
     s\<lparr>stdout := (stdout s)\<lparr>written := written (stdout s) @
        concat (map (\<lambda>t. (if t = ''$?'' then fmt_d (last_exit_code s)
                          else if hd t = CHR ''$''
                            then (case environ s (tl t) of None \<Rightarrow> [] | Some v \<Rightarrow> v)
                            else t) @ '' '')
                 (tokens c BUILTIN_DELIMS))\<rparr>\<rparr>"
  by (rule echo_loop_written_gen) simp_all

lemma echo_arguments:
  assumes tok: "strtok_r cmd BUILTIN_DELIMS = Some (''echo'', save)"
    and trimmed: "\<not> isspace (hd cmd)"
  shows "tokens (dropWhile (\<lambda>c. \<not> isspace c) cmd) BUILTIN_DELIMS = tokens save BUILTIN_DELIMS"
proof -
  let ?D = "\<lambda>c. c \<in> set BUILTIN_DELIMS"
  have sp: "c \<in> set BUILTIN_DELIMS \<Longrightarrow> isspace c" for c
    by (auto simp: BUILTIN_DELIMS_def isspace_def)
  from tok have ne: "cmd \<noteq> []"
    by (auto simp: strtok_r_def)
  with trimmed sp have "\<not> ?D (hd cmd)" by blast
  with ne have dw: "dropWhile ?D cmd = cmd"
    by (cases cmd) auto
  define rest where "rest = dropWhile (\<lambda>c. c \<notin> set BUILTIN_DELIMS) cmd"
  from tok dw have tw: "takeWhile (\<lambda>c. c \<notin> set BUILTIN_DELIMS) cmd = ''echo''"
    and sv: "save = drop 1 rest"
    by (auto simp: strtok_r_def Let_def rest_def split: if_splits)
  have cmd: "cmd = ''echo'' @ rest"
    using takeWhile_dropWhile_id [of "\<lambda>c. c \<notin> set BUILTIN_DELIMS" cmd] tw
    by (simp add: rest_def)
  have hd_rest: "rest \<noteq> [] \<Longrightarrow> hd rest \<in> set BUILTIN_DELIMS"
    using hd_dropWhile [of "\<lambda>c. c \<notin> set BUILTIN_DELIMS" cmd] by (simp add: rest_def)
  have "dropWhile (\<lambda>c. \<not> isspace c) cmd = dropWhile (\<lambda>c. \<not> isspace c) rest"
    by (subst cmd) (simp add: isspace_def)
  also have "\<dots> = rest"
    using hd_rest sp by (cases rest) auto
  finally have a: "dropWhile (\<lambda>c. \<not> isspace c) cmd = rest" .
  show ?thesis
  proof (cases rest)
    case Nil
    have "tokens (dropWhile (\<lambda>c. \<not> isspace c) cmd) BUILTIN_DELIMS = tokens rest BUILTIN_DELIMS"
      by (simp only: a)
    also have "\<dots> = tokens save BUILTIN_DELIMS"
      using sv Nil by simp
    finally show ?thesis .
  next
    case (Cons d r)
    with hd_rest have "d \<in> set BUILTIN_DELIMS" by simp
    have "tokens (dropWhile (\<lambda>c. \<not> isspace c) cmd) BUILTIN_DELIMS = tokens rest BUILTIN_DELIMS"
      by (simp only: a)
    also have "\<dots> = tokens save BUILTIN_DELIMS"
      using sv Cons \<open>d \<in> set BUILTIN_DELIMS\<close> by (simp add: tokens_skip_delim)
    finally show ?thesis .
  qed
qed

text \<open>
  C7. For a line dispatched to \<^verbatim>\<open>echo\<close> (its first token is \<^verbatim>\<open>echo\<close>; the main loop
  has trimmed it), with standard output accepting the writes: the output is, for every
  further token of the line in order, the token's text followed by one space, and then a
  newline; the text of \<^verbatim>\<open>$?\<close> is \<^verbatim>\<open>last_exit_code\<close> in decimal, the text of \<^verbatim>\<open>$NAME\<close>
  is the value of \<^verbatim>\<open>NAME\<close> in the environment, or nothing when it is unset, and the
  text of any other token is the token.
\<close>

theorem builtin_echo_output:
  assumes "is_builtin (Some cmd) = 3" and "\<not> isspace (hd cmd)" and "tape (stdout s) = []"
  shows "tokens cmd BUILTIN_DELIMS = ''echo'' # tl (tokens cmd BUILTIN_DELIMS) \<and>
     builtin_echo (Some cmd) s =
       (0, s\<lparr>stdout := (stdout s)\<lparr>written := written (stdout s) @
          concat (map (\<lambda>t. (if t = ''$?'' then fmt_d (last_exit_code s)
                            else if hd t = CHR ''$''
                              then (case environ s (tl t) of None \<Rightarrow> [] | Some v \<Rightarrow> v)
                              else t) @ '' '') (tl (tokens cmd BUILTIN_DELIMS))) @
          ''\<newline>''\<rparr>\<rparr>)"
proof -
  from assms(1) obtain tok save where ts: "strtok_r cmd BUILTIN_DELIMS = Some (tok, save)"
    by (cases "strtok_r cmd BUILTIN_DELIMS") (auto simp: is_builtin_no_token)
  with assms(1) have "tok = ''echo''"
    by (simp add: is_builtin_index split: if_splits)
  with ts have te: "strtok_r cmd BUILTIN_DELIMS = Some (''echo'', save)" by simp
  then have t1: "tokens cmd BUILTIN_DELIMS = ''echo'' # tokens save BUILTIN_DELIMS"
    by (simp add: tokens.simps [of cmd])
  have ar: "tokens (dropWhile (\<lambda>c. \<not> isspace c) cmd) BUILTIN_DELIMS = tokens save BUILTIN_DELIMS"
    using te assms(2) by (rule echo_arguments)
  have "builtin_echo (Some cmd) s =
       (0, s\<lparr>stdout := (stdout s)\<lparr>written := written (stdout s) @
          concat (map (\<lambda>t. (if t = ''$?'' then fmt_d (last_exit_code s)
                            else if hd t = CHR ''$''
                              then (case environ s (tl t) of None \<Rightarrow> [] | Some v \<Rightarrow> v)
                              else t) @ '' '') (tokens save BUILTIN_DELIMS)) @ ''\<newline>''\<rparr>\<rparr>)"
    using assms(3) ar
    by (simp add: builtin_echo_def Let_def echo_loop_written dprintf_ok)
  with t1 show ?thesis by simp
qed

theorem builtin_echo_output_witness:
  "is_builtin (Some ''echo hello'') = 3 \<and> \<not> isspace (hd ''echo hello'') \<and>
   tape (stdout example_shell) = [] \<and>
   tokens ''echo hello'' BUILTIN_DELIMS = [''echo'', ''hello''] \<and>
   builtin_echo (Some ''echo hello'') example_shell =
     (0, example_shell\<lparr>stdout := \<lparr>written = ''hello \<newline>'', tape = []\<rparr>\<rparr>)"
proof -
  have t: "strtok_r ''echo hello'' BUILTIN_DELIMS = Some (''echo'', ''hello'')"
    "strtok_r ''hello'' BUILTIN_DELIMS = Some (''hello'', [])"
    "strtok_r [] BUILTIN_DELIMS = None"
    by (simp_all add: strtok_r_def BUILTIN_DELIMS_def)
  have a: "is_builtin (Some ''echo hello'') = 3"
    by (simp add: is_builtin_index [OF t(1)])
  have b: "\<not> isspace (hd ''echo hello'')"
    by (simp add: isspace_def)
  have c: "tape (stdout example_shell) = []"
    by (simp add: example_shell_def)
  have d: "tokens ''echo hello'' BUILTIN_DELIMS = [''echo'', ''hello'']"
    by (simp add: tokens.simps t)
  from builtin_echo_output [OF a b c] d
  have "builtin_echo (Some ''echo hello'') example_shell =
     (0, example_shell\<lparr>stdout := (stdout example_shell)\<lparr>written := written (stdout example_shell) @
        ''hello \<newline>''\<rparr>\<rparr>)"
    by auto
  then have "builtin_echo (Some ''echo hello'') example_shell =
     (0, example_shell\<lparr>stdout := \<lparr>written = ''hello \<newline>'', tape = []\<rparr>\<rparr>)"
    by (simp add: example_shell_def)
  with a b c d show ?thesis by simp
qed

section \<open>The job controller\<close>

lemma job_wait_Some:
  "job_wait os (Some job) s =
     (0, Some (case waitpid_status os of None \<Rightarrow> job
               | Some st \<Rightarrow> the (snd (job_update_status (Some job) st))),
      (syscall (Waitpid (pgid job)) s)\<lparr>tty_attr := tty_attr_left os\<rparr>)"
  by (simp add: job_wait_def job_update_status_def Let_def split: option.splits)

lemma job_wait_frame:
  "job_wait os (Some job) s = (w, jp, s1) \<Longrightarrow>
     last_exit_code s1 = last_exit_code s \<and> stdout s1 = stdout s"
  by (auto simp: job_wait_def syscall_def Let_def split: option.splits)

lemma restore_shell_control_frame:
  "restore_shell_control os tap s = Returns (r, tap', s1) \<Longrightarrow>
     last_exit_code s1 = last_exit_code s \<and> stdout s1 = stdout s"
  by (auto simp: restore_shell_control_def syscall_def Let_def split: option.splits if_splits)

lemma fg_finish_result:
  assumes "fg_finish os job1 s = Returns (r, jp, s')"
  shows "\<exists>job'. r = 0 \<and> jp = Some job' \<and>
     last_exit_code s' = (if status job' = EXITED then exitcode job' else last_exit_code s) \<and>
     stdout s' = (if status job' = SUSPENDED then snd (print_job (Some job') (stdout s))
                  else stdout s)"
proof -
  define job2 where "job2 = (case waitpid_status os of None \<Rightarrow> job1
               | Some st \<Rightarrow> the (snd (job_update_status (Some job1) st)))"
  define s1 where "s1 = (syscall (Waitpid (pgid job1)) s)\<lparr>tty_attr := tty_attr_left os\<rparr>"
  have jw: "job_wait os (Some job1) s = (0, Some job2, s1)"
    by (simp add: job_wait_Some job2_def s1_def)
  have f1: "last_exit_code s1 = last_exit_code s" "stdout s1 = stdout s"
    by (simp_all add: s1_def syscall_def)
  have e: "fg_finish os job1 s =
     (case restore_shell_control os (Some (termattr job2)) s1 of
             Returns (r, Some ta, s2) \<Rightarrow>
               (let job3 = job2\<lparr>termattr := ta\<rparr> in
                if status job3 = EXITED
                  then Returns (0, Some job3, s2\<lparr>last_exit_code := exitcode job3\<rparr>)
                else if status job3 = SUSPENDED
                  then Returns (0, Some job3, s2\<lparr>stdout := snd (print_job (Some job3) (stdout s2))\<rparr>)
                else Returns (0, Some job3, s2))
           | Returns (r, None, s2) \<Rightarrow> Crashes
           | Exits c \<Rightarrow> Exits c
           | Child cmd g f \<Rightarrow> Child cmd g f
           | Crashes \<Rightarrow> Crashes)"
    by (simp add: fg_finish_def jw)
  show ?thesis
  proof (cases "restore_shell_control os (Some (termattr job2)) s1")
    case (Returns x)
    obtain r2 tap s2 where x: "x = (r2, tap, s2)"
      by (cases x) auto
    show ?thesis
    proof (cases tap)
      case None
      with assms e Returns x show ?thesis by simp
    next
      case (Some ta)
      with Returns x have rs: "restore_shell_control os (Some (termattr job2)) s1 =
          Returns (r2, Some ta, s2)"
        by simp
      then have f2: "last_exit_code s2 = last_exit_code s" "stdout s2 = stdout s"
        using restore_shell_control_frame [OF rs] f1 by simp_all
      let ?job3 = "job2\<lparr>termattr := ta\<rparr>"
      from assms e rs have r: "Returns (r, jp, s') =
          (if status ?job3 = EXITED
             then Returns (0, Some ?job3, s2\<lparr>last_exit_code := exitcode ?job3\<rparr>)
           else if status ?job3 = SUSPENDED
             then Returns (0, Some ?job3, s2\<lparr>stdout := snd (print_job (Some ?job3) (stdout s2))\<rparr>)
           else Returns (0, Some ?job3, s2))"
        by (simp add: Let_def split del: if_split)
      show ?thesis
      proof (cases "status ?job3 = EXITED")
        case True
        with r f2 show ?thesis by (simp add: status_defs)
      next
        case ne: False
        show ?thesis
        proof (cases "status ?job3 = SUSPENDED")
          case True
          with r ne f2 show ?thesis by simp
        next
          case False
          with r ne f2 show ?thesis by simp
        qed
      qed
    qed
  next
    case (Exits c)
    with assms e show ?thesis by simp
  next
    case (Child c g f)
    with assms e show ?thesis by simp
  next
    case Crashes
    with assms e show ?thesis by simp
  qed
qed

lemma fg_finish_returns:
  assumes "\<not> tcsetpgrp_shell_fails os" "\<not> tcgetattr_fails os" "\<not> tcsetattr_shell_fails os"
  shows "\<exists>job' s'. fg_finish os job1 s = Returns (0, Some job', s') \<and>
     status job' = status (case waitpid_status os of None \<Rightarrow> job1
               | Some st \<Rightarrow> the (snd (job_update_status (Some job1) st)))"
  using assms
  by (simp add: fg_finish_def job_wait_Some restore_shell_control_def Let_def)

lemma run_in_foreground_cases:
  assumes a: "run_in_foreground os (Some job) cont s = Returns (r, jp, s')"
  shows "(r = - 1 \<and> jp = Some job \<and> s' = s) \<or>
     (\<exists>job1 s1. fg_finish os job1 s1 = Returns (r, jp, s') \<and>
        last_exit_code s1 = last_exit_code s \<and> stdout s1 = stdout s)"
proof (cases "\<not> (status job = NEW \<or> status job = SUSPENDED \<or> status job = RUNNING) \<or>
    (status job = RUNNING \<and> \<not> is_in_bg job)")
  case True
  with a show ?thesis
    by (auto simp: run_in_foreground_def)
next
  case False
  define job1 where "job1 = job\<lparr>status := RUNNING, is_in_bg := False\<rparr>"
  define s1 where "s1 = (syscall (Tcsetpgrp (pgid job1)) s)\<lparr>tty_pgrp := pgid job1\<rparr>"
  define s3 where "s3 = syscall (Killpg (pgid job1) SIGCONT)
     ((syscall (Tcsetattr (termattr job1)) s1)\<lparr>tty_attr := termattr job1\<rparr>)"
  from a False have "fg_finish os job1 s1 = Returns (r, jp, s') \<or>
      fg_finish os job1 s3 = Returns (r, jp, s')"
    by (auto simp: run_in_foreground_def Let_def job1_def s1_def s3_def split: if_splits)
  moreover have "last_exit_code s1 = last_exit_code s" "stdout s1 = stdout s"
    "last_exit_code s3 = last_exit_code s" "stdout s3 = stdout s"
    by (simp_all add: s1_def s3_def syscall_def)
  ultimately show ?thesis by blast
qed

text \<open>
  C4. \<^verbatim>\<open>run_in_foreground\<close> returns -1 when the job is \<^verbatim>\<open>NULL\<close>, when its status is
  none of \<open>NEW\<close>, \<open>SUSPENDED\<close>, \<open>RUNNING\<close>, and when it is \<open>RUNNING\<close> and not in the
  background. The job and the whole state of the shell are then what they were: no
  system call was made (the trace is the same), the terminal has the foreground group
  it had, and \<open>status\<close> and \<open>is_in_bg\<close> are unchanged. Every return with a value other
  than 0 is of this kind.
\<close>

theorem run_in_foreground_rejects:
  "run_in_foreground os None cont s = Returns (- 1, None, s) \<and>
   (\<not> (status job = NEW \<or> status job = SUSPENDED \<or> status job = RUNNING) \<or>
    (status job = RUNNING \<and> \<not> is_in_bg job) \<longrightarrow>
      run_in_foreground os (Some job) cont s = Returns (- 1, Some job, s)) \<and>
   (run_in_foreground os jp cont s = Returns (r, jp', s') \<and> r \<noteq> 0 \<longrightarrow> jp' = jp \<and> s' = s)"
proof -
  have n: "run_in_foreground os None cont s = Returns (- 1, None, s)"
    by (simp add: run_in_foreground_def)
  have rej: "run_in_foreground os (Some job) cont s = Returns (- 1, Some job, s)"
    if "\<not> (status job = NEW \<or> status job = SUSPENDED \<or> status job = RUNNING) \<or>
        (status job = RUNNING \<and> \<not> is_in_bg job)"
    using that by (auto simp: run_in_foreground_def)
  have err: "jp' = jp \<and> s' = s"
    if a: "run_in_foreground os jp cont s = Returns (r, jp', s') \<and> r \<noteq> 0"
  proof (cases jp)
    case None
    with a show ?thesis by (simp add: run_in_foreground_def)
  next
    case (Some job)
    with a run_in_foreground_cases [of os job cont s r jp' s'] fg_finish_result
    show ?thesis by blast
  qed
  from n rej err show ?thesis by blast
qed

theorem run_in_foreground_rejects_witness:
  "status example_job = RUNNING \<and> \<not> is_in_bg example_job \<and>
   run_in_foreground example_os (Some example_job) True example_shell =
     Returns (- 1, Some example_job, example_shell) \<and>
   status (example_job\<lparr>status := EXITED\<rparr>) \<noteq> NEW \<and>
   run_in_foreground example_os (Some (example_job\<lparr>status := EXITED\<rparr>)) True example_shell =
     Returns (- 1, Some (example_job\<lparr>status := EXITED\<rparr>), example_shell)"
proof -
  have a: "status example_job = RUNNING" "\<not> is_in_bg example_job"
    "status (example_job\<lparr>status := EXITED\<rparr>) \<noteq> NEW"
    "status (example_job\<lparr>status := EXITED\<rparr>) \<noteq> SUSPENDED"
    "status (example_job\<lparr>status := EXITED\<rparr>) \<noteq> RUNNING"
    by (simp_all add: example_job_def status_defs)
  show ?thesis
    using a run_in_foreground_rejects [of example_os True example_shell example_job]
      run_in_foreground_rejects [of example_os True example_shell "example_job\<lparr>status := EXITED\<rparr>"]
    by simp
qed

text \<open>
  C8. When \<^verbatim>\<open>run_in_foreground\<close> has waited for the job and returns 0:
  \<^verbatim>\<open>last_exit_code\<close> is the job's exit code if the job is then \<open>EXITED\<close>, and is what it
  was before the call otherwise; standard output has received the job's line (through
  \<^verbatim>\<open>print_job\<close>) if the job is then \<open>SUSPENDED\<close>, and nothing otherwise. With the
  job in a state that is accepted and the terminal calls succeeding, the call does
  return 0, and the status of the job is the one the wait gave it.
\<close>

theorem run_in_foreground_records_exit_code:
  "(run_in_foreground os (Some job) cont s = Returns (0, jp', s') \<longrightarrow>
      (\<exists>job'. jp' = Some job' \<and>
         last_exit_code s' = (if status job' = EXITED then exitcode job' else last_exit_code s) \<and>
         stdout s' = (if status job' = SUSPENDED then snd (print_job (Some job') (stdout s))
                      else stdout s))) \<and>
   ((status job = NEW \<or> status job = SUSPENDED \<or> (status job = RUNNING \<and> is_in_bg job)) \<and>
    \<not> tcsetpgrp_job_fails os \<and> \<not> tcsetattr_job_fails os \<and> \<not> killpg_fails os \<and>
    \<not> tcsetpgrp_shell_fails os \<and> \<not> tcgetattr_fails os \<and> \<not> tcsetattr_shell_fails os \<longrightarrow>
      (\<exists>job' s'. run_in_foreground os (Some job) cont s = Returns (0, Some job', s') \<and>
         status job' =
           status (case waitpid_status os of
                     None \<Rightarrow> job\<lparr>status := RUNNING, is_in_bg := False\<rparr>
                   | Some st \<Rightarrow> the (snd (job_update_status
                         (Some (job\<lparr>status := RUNNING, is_in_bg := False\<rparr>)) st)))))"
proof (intro conjI impI)
  assume a: "run_in_foreground os (Some job) cont s = Returns (0, jp', s')"
  from run_in_foreground_cases [OF a] obtain job1 s1 where
    f: "fg_finish os job1 s1 = Returns (0, jp', s')"
      "last_exit_code s1 = last_exit_code s" "stdout s1 = stdout s"
    by auto
  from fg_finish_result [OF f(1)] f(2,3)
  show "\<exists>job'. jp' = Some job' \<and>
         last_exit_code s' = (if status job' = EXITED then exitcode job' else last_exit_code s) \<and>
         stdout s' = (if status job' = SUSPENDED then snd (print_job (Some job') (stdout s))
                      else stdout s)"
    by auto
next
  assume h: "(status job = NEW \<or> status job = SUSPENDED \<or> (status job = RUNNING \<and> is_in_bg job)) \<and>
    \<not> tcsetpgrp_job_fails os \<and> \<not> tcsetattr_job_fails os \<and> \<not> killpg_fails os \<and>
    \<not> tcsetpgrp_shell_fails os \<and> \<not> tcgetattr_fails os \<and> \<not> tcsetattr_shell_fails os"
  let ?job1 = "job\<lparr>status := RUNNING, is_in_bg := False\<rparr>"
  have fr: "\<exists>job' s'. fg_finish os ?job1 s1 = Returns (0, Some job', s') \<and>
     status job' = status (case waitpid_status os of None \<Rightarrow> ?job1
               | Some st \<Rightarrow> the (snd (job_update_status (Some ?job1) st)))" for s1
    using h fg_finish_returns by blast
  from h have "\<exists>s1. run_in_foreground os (Some job) cont s = fg_finish os ?job1 s1"
    by (auto simp: run_in_foreground_def Let_def status_defs)
  with fr show "\<exists>job' s'. run_in_foreground os (Some job) cont s = Returns (0, Some job', s') \<and>
         status job' =
           status (case waitpid_status os of
                     None \<Rightarrow> ?job1
                   | Some st \<Rightarrow> the (snd (job_update_status (Some ?job1) st)))"
    by metis
qed


theorem run_in_foreground_records_exit_code_witness:
  "run_in_foreground (example_os\<lparr>waitpid_status := Some 0x300\<rparr>)
      (Some (example_job\<lparr>is_in_bg := True\<rparr>)) False example_shell =
     Returns (0, Some (example_job\<lparr>status := EXITED, exitcode := 3, termattr := 9\<rparr>),
       example_shell\<lparr>last_exit_code := 3,
         trace := [Tcsetpgrp 4242, Waitpid 4242, Tcsetpgrp 100, Tcgetattr, Tcsetattr 7]\<rparr>) \<and>
   last_exit_code (example_shell\<lparr>last_exit_code := 3,
         trace := [Tcsetpgrp 4242, Waitpid 4242, Tcsetpgrp 100, Tcgetattr, Tcsetattr 7]\<rparr>) =
     exitcode (example_job\<lparr>status := EXITED, exitcode := 3, termattr := 9\<rparr>) \<and>
   (\<exists>job' s'. run_in_foreground example_os (Some (example_job\<lparr>status := SUSPENDED\<rparr>)) True
        example_shell = Returns (0, Some job', s') \<and> status job' = SUSPENDED)"
proof -
  let ?os = "example_os\<lparr>waitpid_status := Some 0x300\<rparr>"
  let ?job = "example_job\<lparr>is_in_bg := True\<rparr>"
  let ?J = "example_job\<lparr>status := EXITED, exitcode := 3, termattr := 9\<rparr>"
  let ?S = "example_shell\<lparr>last_exit_code := 3,
         trace := [Tcsetpgrp 4242, Waitpid 4242, Tcsetpgrp 100, Tcgetattr, Tcsetattr 7]\<rparr>"
  have w: "WIFEXITED 0x300" "WEXITSTATUS 0x300 = 3" "\<not> WIFSTOPPED 0x300" "\<not> WIFCONTINUED 0x300"
    "\<not> WIFSIGNALED 0x300"
    by (simp_all add: WIFEXITED_def WEXITSTATUS_def WIFSTOPPED_def WIFCONTINUED_def WIFSIGNALED_def)
  have run: "run_in_foreground ?os (Some ?job) False example_shell = Returns (0, Some ?J, ?S)"
    by (simp add: run_in_foreground_def fg_finish_def job_wait_def restore_shell_control_def
        syscall_def job_update_status_def w example_os_def example_job_def example_shell_def
        status_defs Let_def)
  have st: "WIFSTOPPED 0x147f"
    by (simp add: WIFSTOPPED_def)
  have h: "(status (example_job\<lparr>status := SUSPENDED\<rparr>) = NEW \<or>
       status (example_job\<lparr>status := SUSPENDED\<rparr>) = SUSPENDED \<or>
       (status (example_job\<lparr>status := SUSPENDED\<rparr>) = RUNNING \<and>
        is_in_bg (example_job\<lparr>status := SUSPENDED\<rparr>))) \<and>
    \<not> tcsetpgrp_job_fails example_os \<and> \<not> tcsetattr_job_fails example_os \<and>
    \<not> killpg_fails example_os \<and> \<not> tcsetpgrp_shell_fails example_os \<and>
    \<not> tcgetattr_fails example_os \<and> \<not> tcsetattr_shell_fails example_os"
    by (simp add: example_os_def)
  have ws: "waitpid_status example_os = Some 0x147f"
    by (simp add: example_os_def)
  from run_in_foreground_records_exit_code
    [of ?os ?job False example_shell "Some ?J" ?S] run
  have a: "last_exit_code ?S = exitcode ?J"
    by (simp add: status_defs)
  from run_in_foreground_records_exit_code
    [of example_os "example_job\<lparr>status := SUSPENDED\<rparr>" True example_shell] h
  have b: "\<exists>job' s'. run_in_foreground example_os (Some (example_job\<lparr>status := SUSPENDED\<rparr>)) True
        example_shell = Returns (0, Some job', s') \<and> status job' = SUSPENDED"
    by (simp add: ws job_update_status_def st)
  from run a b show ?thesis by simp
qed

section \<open>Parsing\<close>

lemma strtok_r_Nil: "strtok_r [] delim = None"
  by (simp add: strtok_r_def)

lemma tokens_Some:
  "strtok_r s delim = Some (tok, save) \<Longrightarrow> tokens s delim = tok # tokens save delim"
  by (simp add: tokens.simps [of s])

lemma tokens_None: "strtok_r s delim = None \<Longrightarrow> tokens s delim = []"
  by (simp add: tokens.simps [of s])

lemma take_whole: "take n w = x \<Longrightarrow> length w \<le> n \<Longrightarrow> w = x"
  by simp

text \<open>The second half of the loop body, in terms of the tokens behind the word.\<close>

lemma parse_word_plain:
  assumes "\<not> bare_operator w"
  shows "parse_word cdelims w save newc = Returns (save, put_word w ts newc)"
proof -
  have a: "length w > 2" if "take 2 w = ''>>''"
  proof (rule ccontr)
    assume "\<not> length w > 2"
    then have "w = ''>>''" using that take_whole [of 2 w] by simp
    with assms show False by (simp add: bare_operator_def)
  qed
  have b: "length w > 1" if "take 1 w = ''>''"
  proof (rule ccontr)
    assume "\<not> length w > 1"
    then have "w = ''>''" using that take_whole [of 1 w] by simp
    with assms show False by (simp add: bare_operator_def)
  qed
  have c: "length w > 2" if "take 2 w = ''2>''"
  proof (rule ccontr)
    assume "\<not> length w > 2"
    then have "w = ''2>''" using that take_whole [of 2 w] by simp
    with assms show False by (simp add: bare_operator_def)
  qed
  have d: "length w > 1" if "take 1 w = ''<''"
  proof (rule ccontr)
    assume "\<not> length w > 1"
    then have "w = ''<''" using that take_whole [of 1 w] by simp
    with assms show False by (simp add: bare_operator_def)
  qed
  show ?thesis
    using a b c d
    by (simp add: parse_word_def redirection_def put_word_def strncmp0_def)
qed

lemma parse_word_bare:
  assumes "bare_operator w"
  shows "parse_word cdelims w save newc =
     (case strtok_r save cdelims of
        None \<Rightarrow> Crashes
      | Some (path, save') \<Rightarrow> Returns (save', put_word w (path # ts) newc))"
  using assms
  by (auto simp: bare_operator_def parse_word_def redirection_def put_word_def strncmp0_def
      split: option.splits)

text \<open>The component loop gives what the tokens give.\<close>

lemma parse_components_tokens:
  "parse_components cdelims cptr (bg, newc) =
     (case spec_command (tokens cptr cdelims) newc of
        None \<Rightarrow> Crashes
      | Some newc' \<Rightarrow>
          Returns (bg \<or> (\<exists>t\<in>set (examined (tokens cptr cdelims)).
                             hd t = CHR ''&'' \<or> last t = CHR ''&''), newc'))"
proof (induction "length cptr" arbitrary: cptr bg newc rule: less_induct)
  case less
  show ?case
  proof (cases "strtok_r cptr cdelims")
    case None
    then show ?thesis
      by (simp add: parse_components.simps [of cdelims cptr] tokens_None)
  next
    case (Some p)
    then obtain ctok save where ts: "strtok_r cptr cdelims = Some (ctok, save)"
      by (cases p) auto
    then have tk: "tokens cptr cdelims = ctok # tokens save cdelims"
      by (rule tokens_Some)
    from ts have l1: "length save < length cptr"
      by (rule strtok_r_shorter)
    show ?thesis
    proof (cases "hd ctok = CHR ''&''")
      case True
      then have "parse_components cdelims cptr (bg, newc) =
          parse_components cdelims save (True, newc)"
        using ts by (simp add: parse_components.simps [of cdelims cptr] parse_component_def)
      also have "\<dots> = (case spec_command (tokens save cdelims) newc of
            None \<Rightarrow> Crashes
          | Some newc' \<Rightarrow> Returns (True, newc'))"
        using less.hyps [OF l1, of True newc] by (simp split: option.splits)
      finally show ?thesis
        using True by (simp add: tk takes_path_def split: option.splits)
    next
      case amp: False
      define w where "w = strip_amp ctok"
      define bg1 where "bg1 = (last ctok = CHR ''&'' \<or> bg)"
      have step: "parse_components cdelims cptr (bg, newc) =
          (case parse_word cdelims w save newc of
             Returns (save', newc') \<Rightarrow> parse_components cdelims save' (bg1, newc')
           | _ \<Rightarrow> Crashes)"
        using ts amp
        by (simp add: parse_components.simps [of cdelims cptr] parse_component_def w_def
            strip_amp_def bg1_def split: outcome.splits)
      show ?thesis
      proof (cases "bare_operator w")
        case False
        then have pw: "parse_word cdelims w save newc =
            Returns (save, put_word w (tokens save cdelims) newc)"
          by (rule parse_word_plain)
        have "parse_components cdelims cptr (bg, newc) =
            parse_components cdelims save (bg1, put_word w (tokens save cdelims) newc)"
          by (simp add: step pw)
        also have "\<dots> =
            (case spec_command (tokens save cdelims) (put_word w (tokens save cdelims) newc) of
               None \<Rightarrow> Crashes
             | Some newc' \<Rightarrow>
                 Returns (bg1 \<or> (\<exists>t\<in>set (examined (tokens save cdelims)).
                             hd t = CHR ''&'' \<or> last t = CHR ''&''), newc'))"
          by (rule less.hyps [OF l1])
        finally show ?thesis
          using amp False
          by (auto simp: tk takes_path_def w_def [symmetric] bg1_def split: option.splits)
      next
        case True
        show ?thesis
        proof (cases "strtok_r save cdelims")
          case None
          then have "tokens save cdelims = []"
            by (rule tokens_None)
          moreover have "parse_components cdelims cptr (bg, newc) = Crashes"
            using None by (simp add: step parse_word_bare [OF True, of _ _ _ "[]"])
          ultimately show ?thesis
            using amp True by (simp add: tk w_def [symmetric])
        next
          case (Some q)
          then obtain path save2 where t2: "strtok_r save cdelims = Some (path, save2)"
            by (cases q) auto
          then have tk2: "tokens save cdelims = path # tokens save2 cdelims"
            by (rule tokens_Some)
          from t2 have "length save2 < length save"
            by (rule strtok_r_shorter)
          with l1 have l2: "length save2 < length cptr" by simp
          have "parse_components cdelims cptr (bg, newc) =
              parse_components cdelims save2
                (bg1, put_word w (path # tokens save2 cdelims) newc)"
            using t2
            by (simp add: step parse_word_bare [OF True, of _ _ _ "tokens save2 cdelims"])
          also have "\<dots> =
              (case spec_command (tokens save2 cdelims)
                      (put_word w (path # tokens save2 cdelims) newc) of
                 None \<Rightarrow> Crashes
               | Some newc' \<Rightarrow>
                   Returns (bg1 \<or> (\<exists>t\<in>set (examined (tokens save2 cdelims)).
                               hd t = CHR ''&'' \<or> last t = CHR ''&''), newc'))"
            by (rule less.hyps [OF l2])
          finally show ?thesis
            using amp True
            by (auto simp: tk tk2 takes_path_def w_def [symmetric] bg1_def split: option.splits)
        qed
      qed
    qed
  qed
qed

text \<open>The command loop gives what the commands' tokens give.\<close>

lemma parse_commands_tokens:
  "parse_commands idelims cdelims iptr retval =
     (if \<forall>cmd\<in>set (tokens iptr idelims).
           spec_command (tokens cmd cdelims) (new_command cmd) \<noteq> None
      then Returns (retval\<lparr>
             commands := commands retval @
               map (\<lambda>cmd. the (spec_command (tokens cmd cdelims) (new_command cmd)))
                 (tokens iptr idelims),
             is_background_command :=
               (is_background_command retval \<or>
                (\<exists>cmd\<in>set (tokens iptr idelims). \<exists>t\<in>set (examined (tokens cmd cdelims)).
                    hd t = CHR ''&'' \<or> last t = CHR ''&''))\<rparr>)
      else Crashes)"
proof (induction "length iptr" arbitrary: iptr retval rule: less_induct)
  case less
  show ?case
  proof (cases "strtok_r iptr idelims")
    case None
    then show ?thesis
      by (simp add: parse_commands.simps [of idelims cdelims iptr] tokens_None)
  next
    case (Some p)
    then obtain tok save where ts: "strtok_r iptr idelims = Some (tok, save)"
      by (cases p) auto
    then have tk: "tokens iptr idelims = tok # tokens save idelims"
      by (rule tokens_Some)
    from ts have l1: "length save < length iptr"
      by (rule strtok_r_shorter)
    show ?thesis
    proof (cases "spec_command (tokens tok cdelims) (new_command tok)")
      case None
      then have "parse_commands idelims cdelims iptr retval = Crashes"
        using ts
        by (simp add: parse_commands.simps [of idelims cdelims iptr] parse_components_tokens)
      with None show ?thesis
        by (simp add: tk)
    next
      case (Some newc)
      define e where "e = (\<exists>t\<in>set (examined (tokens tok cdelims)).
          hd t = CHR ''&'' \<or> last t = CHR ''&'')"
      define r1 where "r1 = retval\<lparr>commands := commands retval @ [newc],
          is_background_command := (is_background_command retval \<or> e)\<rparr>"
      have "parse_commands idelims cdelims iptr retval = parse_commands idelims cdelims save r1"
        using ts Some
        by (simp add: parse_commands.simps [of idelims cdelims iptr] parse_components_tokens
            r1_def e_def)
      also have "\<dots> =
         (if \<forall>cmd\<in>set (tokens save idelims).
               spec_command (tokens cmd cdelims) (new_command cmd) \<noteq> None
          then Returns (r1\<lparr>
                 commands := commands r1 @
                   map (\<lambda>cmd. the (spec_command (tokens cmd cdelims) (new_command cmd)))
                     (tokens save idelims),
                 is_background_command :=
                   (is_background_command r1 \<or>
                    (\<exists>cmd\<in>set (tokens save idelims). \<exists>t\<in>set (examined (tokens cmd cdelims)).
                        hd t = CHR ''&'' \<or> last t = CHR ''&''))\<rparr>)
          else Crashes)"
        by (rule less.hyps [OF l1])
      finally show ?thesis
        using Some by (auto simp: tk r1_def e_def)
    qed
  qed
qed

text \<open>
  C5, as amended. \<^verbatim>\<open>parse_input\<close> returns a pipeline unless a redirection operator
  stands alone at the end of a command. The background flag of the pipeline is set if
  and only if one of the tokens that the component loop examines (every token of a
  command but the one taken as the path of a redirection operator that stands alone)
  begins with \<^verbatim>\<open>&\<close> or ends with \<^verbatim>\<open>&\<close>. The commands are what their tokens give:
  an examined token that begins with \<^verbatim>\<open>&\<close>, the token \<^verbatim>\<open>&\<close> among them, adds nothing
  to its command; any other examined token that ends with \<^verbatim>\<open>&\<close> loses that one
  character, and what is left is a redirection or one more argument, as it is for a
  token without \<^verbatim>\<open>&\<close>.
\<close>

theorem parse_input_ampersand:
  "parse_input (Some line) =
     (if \<forall>cmd\<in>set (tokens line COMMAND_DELIMS).
           spec_command (tokens cmd COMPONENT_DELIMS) (new_command cmd) \<noteq> None
      then Returns (Some \<lparr>input = line,
             commands =
               map (\<lambda>cmd. the (spec_command (tokens cmd COMPONENT_DELIMS) (new_command cmd)))
                 (tokens line COMMAND_DELIMS),
             is_background_command =
               (\<exists>cmd\<in>set (tokens line COMMAND_DELIMS).
                  \<exists>t\<in>set (examined (tokens cmd COMPONENT_DELIMS)).
                    hd t = CHR ''&'' \<or> last t = CHR ''&'')\<rparr>)
      else Crashes) \<and>
   (hd t = CHR ''&'' \<longrightarrow>
      examined (t # ts) = t # examined ts \<and> spec_command (t # ts) newc = spec_command ts newc) \<and>
   (hd t \<noteq> CHR ''&'' \<and> last t = CHR ''&'' \<and> \<not> bare_operator (butlast t) \<longrightarrow>
      examined (t # ts) = t # examined ts \<and>
      spec_command (t # ts) newc = spec_command ts (put_word (butlast t) ts newc)) \<and>
   (hd t \<noteq> CHR ''&'' \<and> last t \<noteq> CHR ''&'' \<and> \<not> bare_operator t \<longrightarrow>
      examined (t # ts) = t # examined ts \<and>
      spec_command (t # ts) newc = spec_command ts (put_word t ts newc)) \<and>
   (hd t \<noteq> CHR ''&'' \<and> bare_operator (strip_amp t) \<longrightarrow>
      examined (t # path # ts) = t # examined ts \<and>
      spec_command (t # path # ts) newc =
        spec_command ts (put_word (strip_amp t) (path # ts) newc))"
proof -
  have "parse_input (Some line) =
     (if \<forall>cmd\<in>set (tokens line COMMAND_DELIMS).
           spec_command (tokens cmd COMPONENT_DELIMS) (new_command cmd) \<noteq> None
      then Returns (Some \<lparr>input = line,
             commands =
               map (\<lambda>cmd. the (spec_command (tokens cmd COMPONENT_DELIMS) (new_command cmd)))
                 (tokens line COMMAND_DELIMS),
             is_background_command =
               (\<exists>cmd\<in>set (tokens line COMMAND_DELIMS).
                  \<exists>t\<in>set (examined (tokens cmd COMPONENT_DELIMS)).
                    hd t = CHR ''&'' \<or> last t = CHR ''&'')\<rparr>)
      else Crashes)"
    by (simp add: parse_input_def parse_input_with_def parse_commands_tokens)
  then show ?thesis
    by (simp add: takes_path_def strip_amp_def)
qed

theorem parse_input_ampersand_witness:
  "tokens ''ls a& >f& &x b &'' COMPONENT_DELIMS = [''ls'', ''a&'', ''>f&'', ''&x'', ''b'', ''&''] \<and>
   parse_input (Some ''ls a& >f& &x b &'') =
     Returns (Some \<lparr>input = ''ls a& >f& &x b &'',
       commands = [\<lparr>command = ''ls a& >f& &x b &'', components = [''ls'', ''a'', ''b''],
          redirect_stdout = Some ''f'', redirect_stderr = None, redirect_stdin = None,
          append_stdout = False\<rparr>],
       is_background_command = True\<rparr>) \<and>
   parse_input (Some ''ls b'') =
     Returns (Some \<lparr>input = ''ls b'',
       commands = [\<lparr>command = ''ls b'', components = [''ls'', ''b''],
          redirect_stdout = None, redirect_stderr = None, redirect_stdin = None,
          append_stdout = False\<rparr>],
       is_background_command = False\<rparr>)"
proof -
  have t1: "tokens ''ls a& >f& &x b &'' COMMAND_DELIMS = [''ls a& >f& &x b &'']"
    "tokens ''ls b'' COMMAND_DELIMS = [''ls b'']"
    by (simp_all add: tokens.simps strtok_r_def COMMAND_DELIMS_def)
  have t2: "tokens ''ls a& >f& &x b &'' COMPONENT_DELIMS =
      [''ls'', ''a&'', ''>f&'', ''&x'', ''b'', ''&'']"
    "tokens ''ls b'' COMPONENT_DELIMS = [''ls'', ''b'']"
    by (simp_all add: tokens.simps strtok_r_def COMPONENT_DELIMS_def)
  show ?thesis
    using parse_input_ampersand [of "''ls a& >f& &x b &''" "[]" "[]" "new_command []" "[]"]
      parse_input_ampersand [of "''ls b''" "[]" "[]" "new_command []" "[]"]
    by (simp add: t1 t2 takes_path_def strip_amp_def bare_operator_def put_word_def
        new_command_def)
qed

text \<open>
  A token that ends in \<^verbatim>\<open>&\<close> does not always set the flag, and what is left of it is
  not always handled: the token after a redirection operator that stands alone is taken
  as the path as it is, and a token that also begins with \<^verbatim>\<open>&\<close> is dropped whole.
\<close>

theorem parse_input_ampersand_counterexample:
  "tokens ''ls > out&'' COMPONENT_DELIMS = [''ls'', ''>'', ''out&''] \<and>
   parse_input (Some ''ls > out&'') =
     Returns (Some \<lparr>input = ''ls > out&'',
       commands = [\<lparr>command = ''ls > out&'', components = [''ls''],
          redirect_stdout = Some ''out&'', redirect_stderr = None, redirect_stdin = None,
          append_stdout = False\<rparr>],
       is_background_command = False\<rparr>) \<and>
   tokens ''ls &x&'' COMPONENT_DELIMS = [''ls'', ''&x&''] \<and>
   parse_input (Some ''ls &x&'') =
     Returns (Some \<lparr>input = ''ls &x&'',
       commands = [\<lparr>command = ''ls &x&'', components = [''ls''],
          redirect_stdout = None, redirect_stderr = None, redirect_stdin = None,
          append_stdout = False\<rparr>],
       is_background_command = True\<rparr>)"
  by (simp add: parse_input_def parse_input_with_def parse_commands.simps parse_components.simps
      parse_component_def parse_word_def redirection_def strncmp0_def new_command_def
      tokens.simps strtok_r_def COMMAND_DELIMS_def COMPONENT_DELIMS_def)

section \<open>Lines that parse to nothing runnable\<close>

text \<open>
  C6. The line \<^verbatim>\<open>|\<close> is no builtin and parses to a pipeline with no command;
  \<^verbatim>\<open>parse_input\<close> does not return \<^verbatim>\<open>NULL\<close> for it, and the main loop makes a job that
  \<^verbatim>\<open>exec_job\<close> puts into the job table before it finds that there is no command. The
  line \<^verbatim>\<open>&\<close> parses to one command without arguments; a job is made and inserted, and
  the shell forks: the parent keeps a running background job, the child calls
  \<^verbatim>\<open>launch_child\<close> with the empty argument list.
\<close>

theorem empty_pipeline_creates_job:
  "is_builtin (Some ''|'') = - 1 \<and>
   parse_input (Some ''|'') =
     Returns (Some \<lparr>input = ''|'', commands = [], is_background_command = False\<rparr>) \<and>
   smash_run_line os ''|'' example_shell =
     Returns (example_shell\<lparr>jobs :=
       [\<lparr>ui = \<lparr>input = ''|'', commands = [], is_background_command = False\<rparr>,
         status = NEW, exitcode = 0, pgid = 0, jobid = 1, termattr = 0,
         is_background_job = False, is_in_bg = False\<rparr>]\<rparr>) \<and>
   is_builtin (Some ''&'') = - 1 \<and>
   parse_input (Some ''&'') =
     Returns (Some \<lparr>input = ''&'',
       commands = [\<lparr>command = ''&'', components = [], redirect_stdout = None,
          redirect_stderr = None, redirect_stdin = None, append_stdout = False\<rparr>],
       is_background_command = True\<rparr>) \<and>
   smash_run_line example_os ''&'' example_shell =
     Returns (example_shell\<lparr>jobs :=
       [\<lparr>ui = \<lparr>input = ''&'',
           commands = [\<lparr>command = ''&'', components = [], redirect_stdout = None,
             redirect_stderr = None, redirect_stdin = None, append_stdout = False\<rparr>],
           is_background_command = True\<rparr>,
         status = RUNNING, exitcode = 0, pgid = 4242, jobid = 1, termattr = 0,
         is_background_job = False, is_in_bg = True\<rparr>],
       trace := [Fork, Setpgid 4242 4242]\<rparr>) \<and>
   smash_run_line (example_os\<lparr>fork_pid := 0\<rparr>) ''&'' example_shell =
     Child \<lparr>command = ''&'', components = [], redirect_stdout = None,
       redirect_stderr = None, redirect_stdin = None, append_stdout = False\<rparr> 0 False"
proof -
  have p1: "parse_input (Some ''|'') =
     Returns (Some \<lparr>input = ''|'', commands = [], is_background_command = False\<rparr>)"
    by (simp add: parse_input_def parse_input_with_def parse_commands.simps strtok_r_def
        COMMAND_DELIMS_def)
  have p2: "parse_input (Some ''&'') =
     Returns (Some \<lparr>input = ''&'',
       commands = [\<lparr>command = ''&'', components = [], redirect_stdout = None,
          redirect_stderr = None, redirect_stdin = None, append_stdout = False\<rparr>],
       is_background_command = True\<rparr>)"
    by (simp add: parse_input_def parse_input_with_def parse_commands.simps
        parse_components.simps parse_component_def new_command_def strtok_r_def
        COMMAND_DELIMS_def COMPONENT_DELIMS_def)
  have b: "is_builtin (Some ''|'') = - 1" "is_builtin (Some ''&'') = - 1"
    by (simp_all add: is_builtin_index [of _ _ "[]"] strtok_r_def BUILTIN_DELIMS_def)
  have r1: "smash_run_line os ''|'' example_shell =
     Returns (example_shell\<lparr>jobs :=
       [\<lparr>ui = \<lparr>input = ''|'', commands = [], is_background_command = False\<rparr>,
         status = NEW, exitcode = 0, pgid = 0, jobid = 1, termattr = 0,
         is_background_job = False, is_in_bg = False\<rparr>]\<rparr>)"
    by (simp add: smash_run_line_def p1 jobs_create_def exec_job_def jobs_insert_def
        example_shell_def status_defs Let_def)
  have r2: "smash_run_line example_os ''&'' example_shell =
     Returns (example_shell\<lparr>jobs :=
       [\<lparr>ui = \<lparr>input = ''&'',
           commands = [\<lparr>command = ''&'', components = [], redirect_stdout = None,
             redirect_stderr = None, redirect_stdin = None, append_stdout = False\<rparr>],
           is_background_command = True\<rparr>,
         status = RUNNING, exitcode = 0, pgid = 4242, jobid = 1, termattr = 0,
         is_background_job = False, is_in_bg = True\<rparr>],
       trace := [Fork, Setpgid 4242 4242]\<rparr>)"
    by (simp add: smash_run_line_def p2 jobs_create_def exec_job_def jobs_insert_def
        run_in_background_def syscall_def example_shell_def example_os_def status_defs Let_def)
  have r3: "smash_run_line (example_os\<lparr>fork_pid := 0\<rparr>) ''&'' example_shell =
     Child \<lparr>command = ''&'', components = [], redirect_stdout = None,
       redirect_stderr = None, redirect_stdin = None, append_stdout = False\<rparr> 0 False"
    by (simp add: smash_run_line_def p2 jobs_create_def exec_job_def jobs_insert_def
        syscall_def example_shell_def example_os_def status_defs Let_def)
  from p1 p2 b r1 r2 r3 show ?thesis by simp
qed

section \<open>A background job in the listing\<close>

text \<open>
  The line \<^verbatim>\<open>sleep 60 &\<close> makes job 1, running in the background; the listing shows
  the line as it was typed, the \<^verbatim>\<open>&\<close> included, and the job stays in the table.
\<close>

lemma background_sleep_listing:
  "smash_run_line example_os ''sleep 60 &'' example_shell =
     Returns (example_shell\<lparr>jobs :=
       [\<lparr>ui = \<lparr>input = ''sleep 60 &'',
           commands = [\<lparr>command = ''sleep 60 &'', components = [''sleep'', ''60''],
             redirect_stdout = None, redirect_stderr = None, redirect_stdin = None,
             append_stdout = False\<rparr>],
           is_background_command = True\<rparr>,
         status = RUNNING, exitcode = 0, pgid = 4242, jobid = 1, termattr = 0,
         is_background_job = False, is_in_bg = True\<rparr>],
       trace := [Fork, Setpgid 4242 4242]\<rparr>) \<and>
   jobs_list
       [\<lparr>ui = \<lparr>input = ''sleep 60 &'',
           commands = [\<lparr>command = ''sleep 60 &'', components = [''sleep'', ''60''],
             redirect_stdout = None, redirect_stderr = None, redirect_stdin = None,
             append_stdout = False\<rparr>],
           is_background_command = True\<rparr>,
         status = RUNNING, exitcode = 0, pgid = 4242, jobid = 1, termattr = 0,
         is_background_job = False, is_in_bg = True\<rparr>]
       \<lparr>written = [], tape = []\<rparr> =
     (0,
       [\<lparr>ui = \<lparr>input = ''sleep 60 &'',
           commands = [\<lparr>command = ''sleep 60 &'', components = [''sleep'', ''60''],
             redirect_stdout = None, redirect_stderr = None, redirect_stdin = None,
             append_stdout = False\<rparr>],
           is_background_command = True\<rparr>,
         status = RUNNING, exitcode = 0, pgid = 4242, jobid = 1, termattr = 0,
         is_background_job = False, is_in_bg = True\<rparr>],
       \<lparr>written = ''[1] (running) sleep 60 &\<newline>'', tape = []\<rparr>)"
proof -
  have p: "parse_input (Some ''sleep 60 &'') =
     Returns (Some \<lparr>input = ''sleep 60 &'',
       commands = [\<lparr>command = ''sleep 60 &'', components = [''sleep'', ''60''],
          redirect_stdout = None, redirect_stderr = None, redirect_stdin = None,
          append_stdout = False\<rparr>],
       is_background_command = True\<rparr>)"
    by (simp add: parse_input_def parse_input_with_def parse_commands.simps
        parse_components.simps parse_component_def parse_word_def strncmp0_def new_command_def
        strtok_r_def COMMAND_DELIMS_def COMPONENT_DELIMS_def)
  have r: "smash_run_line example_os ''sleep 60 &'' example_shell =
     Returns (example_shell\<lparr>jobs :=
       [\<lparr>ui = \<lparr>input = ''sleep 60 &'',
           commands = [\<lparr>command = ''sleep 60 &'', components = [''sleep'', ''60''],
             redirect_stdout = None, redirect_stderr = None, redirect_stdin = None,
             append_stdout = False\<rparr>],
           is_background_command = True\<rparr>,
         status = RUNNING, exitcode = 0, pgid = 4242, jobid = 1, termattr = 0,
         is_background_job = False, is_in_bg = True\<rparr>],
       trace := [Fork, Setpgid 4242 4242]\<rparr>)"
    by (simp add: smash_run_line_def p jobs_create_def exec_job_def jobs_insert_def
        run_in_background_def syscall_def example_shell_def example_os_def status_defs Let_def)
  have l: "jobs_list
       [\<lparr>ui = \<lparr>input = ''sleep 60 &'',
           commands = [\<lparr>command = ''sleep 60 &'', components = [''sleep'', ''60''],
             redirect_stdout = None, redirect_stderr = None, redirect_stdin = None,
             append_stdout = False\<rparr>],
           is_background_command = True\<rparr>,
         status = RUNNING, exitcode = 0, pgid = 4242, jobid = 1, termattr = 0,
         is_background_job = False, is_in_bg = True\<rparr>]
       \<lparr>written = [], tape = []\<rparr> =
     (0,
       [\<lparr>ui = \<lparr>input = ''sleep 60 &'',
           commands = [\<lparr>command = ''sleep 60 &'', components = [''sleep'', ''60''],
             redirect_stdout = None, redirect_stderr = None, redirect_stdin = None,
             append_stdout = False\<rparr>],
           is_background_command = True\<rparr>,
         status = RUNNING, exitcode = 0, pgid = 4242, jobid = 1, termattr = 0,
         is_background_job = False, is_in_bg = True\<rparr>],
       \<lparr>written = ''[1] (running) sleep 60 &\<newline>'', tape = []\<rparr>)"
    by (simp add: jobs_list_def jobs_list_loop.simps print_job_def dprintf_def status_defs
        fmt_d_def fmt_s_def dec_nat.simps digit_char_def jobs_status_as_char_def)
  from r l show ?thesis by simp
qed

end
